theory Spec2Isabelle
  imports Main "HOL-Library.Sublist"
begin

section \<open>SEP lifecycle automation: a shallow embedding\<close>

text \<open>
  The theory follows the TypeScript sources of \<^verbatim>\<open>tools/sep-automation\<close>:
  the rules table (\<^verbatim>\<open>rules.ts\<close>), the repository client (\<^verbatim>\<open>github/client.ts\<close>),
  the maintainer resolver, the staleness analyzer, the detector, the two action handlers
  and the processor.

  Conventions of the embedding.
  \<^item> A JavaScript string is a \<open>string\<close>; a character outside ASCII is written as its
    UTF-8 bytes.
  \<^item> A \<^verbatim>\<open>Date\<close>, and the ISO-8601 text that \<^verbatim>\<open>new Date(text)\<close> parses, is the
    instant it denotes: an \<open>int\<close> of milliseconds since the epoch.
  \<^item> \<^verbatim>\<open>T | null\<close> and \<^verbatim>\<open>T | undefined\<close> are \<open>T option\<close>.
  \<^item> A thrown value is a \<open>thrown\<close>; an \<^verbatim>\<open>async\<close> method that is awaited is a
    function from the state before the call to its outcome (\<open>Inl\<close> what it threw,
    \<open>Inr\<close> what it returned) and the state after it.
\<close>

subsection \<open>Core types (\<^verbatim>\<open>types.ts\<close>, \<^verbatim>\<open>github/types.ts\<close>)\<close>

datatype SEPState = Proposal | Draft | InReview | Accepted | Final | Dormant

text \<open>In the source a \<^verbatim>\<open>SEPState\<close> is the label text itself.\<close>

fun stateLabel :: "SEPState \<Rightarrow> string" where
  "stateLabel Proposal = ''proposal''"
| "stateLabel Draft = ''draft''"
| "stateLabel InReview = ''in-review''"
| "stateLabel Accepted = ''accepted''"
| "stateLabel Final = ''final''"
| "stateLabel Dormant = ''dormant''"

datatype SEPItemType = PR | Issue

datatype IssueState = Open | Closed

record GitHubIssue =
  gh_id :: nat
  gh_number :: nat
  gh_title :: string
  gh_state :: IssueState
  gh_labels :: "string list"
  gh_user :: "string option"
  gh_assignees :: "string list"
  gh_created_at :: int
  gh_updated_at :: int
  gh_html_url :: string
  gh_pull_request :: "string option"

record GitHubComment =
  comment_id :: nat
  body :: string
  user :: "string option"
  created_at :: int
  updated_at :: int

record GitHubEvent =
  event_id :: nat
  event :: string
  actor :: "string option"
  event_created_at :: int
  event_assignee :: "string option"

datatype MembershipState = Active | Pending

record SEPItem =
  sep_id :: nat
  number :: nat
  title :: string
  itemType :: SEPItemType
  state :: "SEPState option"
  labels :: "string list"
  author :: string
  assignees :: "string list"
  createdAt :: int
  updatedAt :: int
  url :: string
  isClosed :: bool

datatype PingTarget = Author | Sponsor | Maintainer

record StaleAnalysis =
  item :: SEPItem
  daysSinceActivity :: int
  shouldPing :: bool
  shouldMarkDormant :: bool
  shouldClose :: bool
  pingTarget :: "PingTarget option"
  reason :: "string option"

datatype ActionType =
  Transition | PingAuthor | PingSponsor | PingMaintainer | NeedsSponsor | MarkDormant | Close

record SEPAction =
  actionType :: ActionType
  actionItem :: SEPItem
  targetUser :: "string option"
  fromState :: "SEPState option"
  toState :: "SEPState option"
  actionReason :: string
  dryRun :: bool

record ActionResult =
  action :: SEPAction
  success :: bool
  error :: "string option"
  commentUrl :: "string option"

definition BOT_COMMENT_MARKER :: string where
  "BOT_COMMENT_MARKER = ''<!-- sep-automation-bot -->''"

subsection \<open>JavaScript values the code relies on\<close>

text \<open>
  A thrown value: an \<^verbatim>\<open>Error\<close> instance with its message and, when it has a numeric
  \<^verbatim>\<open>status\<close> property (Octokit's request errors do), that status; or anything else.
\<close>

datatype thrown = JSError string "int option" | NonError

text \<open>Truthiness of a \<^verbatim>\<open>string | null\<close>: neither \<^verbatim>\<open>null\<close> nor the empty string.\<close>

fun truthy :: "string option \<Rightarrow> bool" where
  "truthy None = False"
| "truthy (Some s) = (s \<noteq> [])"

text \<open>\<^verbatim>\<open>haystack.includes(needle)\<close>: the needle occurs as a contiguous part.\<close>

fun str_includes :: "string \<Rightarrow> string \<Rightarrow> bool" where
  "str_includes [] needle = (needle = [])"
| "str_includes (c # cs) needle =
     (take (length needle) (c # cs) = needle \<or> str_includes cs needle)"

text \<open>The decimal text of an integer, as a template literal prints a whole number.\<close>

definition digit :: "nat \<Rightarrow> char" where
  "digit d = char_of (48 + d)"

function showNat :: "nat \<Rightarrow> string" where
  "showNat n = (if n < 10 then [digit n] else showNat (n div 10) @ [digit (n mod 10)])"
  by pat_completeness auto
termination
  by (relation "measure id") auto

definition showInt :: "int \<Rightarrow> string" where
  "showInt i = (if i < 0 then CHR ''-'' # showNat (nat (- i)) else showNat (nat i))"

text \<open>\<^verbatim>\<open>parts.join(sep)\<close>.\<close>

fun join :: "string \<Rightarrow> string list \<Rightarrow> string" where
  "join sep [] = []"
| "join sep [x] = x"
| "join sep (x # y # ys) = x @ sep @ join sep (y # ys)"

subsection \<open>Error utilities (\<^verbatim>\<open>utils/errors.ts\<close>) and dates (\<^verbatim>\<open>utils/dates.ts\<close>)\<close>

fun getErrorMessage :: "thrown \<Rightarrow> string" where
  "getErrorMessage (JSError message _) = message"
| "getErrorMessage NonError = ''Unknown error''"

fun isHttpError :: "thrown \<Rightarrow> int \<Rightarrow> bool" where
  "isHttpError (JSError _ (Some s)) status = (s = status)"
| "isHttpError (JSError _ None) status = False"
| "isHttpError NonError status = False"

definition MS_PER_DAY :: int where
  "MS_PER_DAY = 24 * 60 * 60 * 1000"

text \<open>
  \<^verbatim>\<open>Math.floor\<close> of the quotient: \<open>div\<close> on \<open>int\<close> rounds down as well. The
  source divides doubles; the two agree as long as the span is below \<open>2^53\<close>
  milliseconds (some 285,000 years), where a double holds every whole number.
\<close>

definition daysBetween :: "int \<Rightarrow> int \<Rightarrow> int" where
  "daysBetween date1 date2 = (date2 - date1) div MS_PER_DAY"

subsection \<open>The rules table (\<^verbatim>\<open>rules.ts\<close>)\<close>

fun STATE_TRANSITIONS :: "SEPState \<Rightarrow> SEPState list" where
  "STATE_TRANSITIONS Proposal = [Draft, Dormant]"
| "STATE_TRANSITIONS Draft = [InReview, Dormant]"
| "STATE_TRANSITIONS InReview = [Accepted, Draft, Dormant]"
| "STATE_TRANSITIONS Accepted = [Final, Dormant]"
| "STATE_TRANSITIONS Final = []"
| "STATE_TRANSITIONS Dormant = [Proposal, Draft]"

definition STATE_LABELS :: "SEPState list" where
  "STATE_LABELS = [Proposal, Draft, InReview, Accepted, Final, Dormant]"

record StalenessRule =
  ruleState :: SEPState
  pingAfterDays :: int
  dormantAfterDays :: "int option"
  rulePingTarget :: PingTarget
  closeOnDormant :: "bool option"

definition STALENESS_RULES :: "StalenessRule list" where
  "STALENESS_RULES =
    [\<lparr>ruleState = Proposal, pingAfterDays = 90, dormantAfterDays = Some 180,
      rulePingTarget = Author, closeOnDormant = Some True\<rparr>,
     \<lparr>ruleState = Draft, pingAfterDays = 90, dormantAfterDays = None,
      rulePingTarget = Sponsor, closeOnDormant = None\<rparr>,
     \<lparr>ruleState = Accepted, pingAfterDays = 30, dormantAfterDays = None,
      rulePingTarget = Author, closeOnDormant = None\<rparr>]"

definition MAINTAINER_INACTIVITY_DAYS :: int where
  "MAINTAINER_INACTIVITY_DAYS = 14"

definition PING_COOLDOWN_DAYS :: int where
  "PING_COOLDOWN_DAYS = 14"

definition isStateLabel :: "string \<Rightarrow> bool" where
  "isStateLabel label = (label \<in> set (map stateLabel STATE_LABELS))"

fun extractState :: "string list \<Rightarrow> SEPState option" where
  "extractState [] = None"
| "extractState (label # rest) =
     (if isStateLabel label then find (\<lambda>s. stateLabel s = label) STATE_LABELS
      else extractState rest)"

fun isValidTransition :: "SEPState option \<Rightarrow> SEPState \<Rightarrow> bool" where
  "isValidTransition None to = True"
| "isValidTransition (Some from) to = (to \<in> set (STATE_TRANSITIONS from))"

definition getStalenessRule :: "SEPState \<Rightarrow> StalenessRule option" where
  "getStalenessRule s = find (\<lambda>rule. ruleState rule = s) STALENESS_RULES"

subsection \<open>Configuration (\<^verbatim>\<open>config.ts\<close>)\<close>

record Config =
  githubToken :: "string option"
  appId :: "string option"
  appPrivateKey :: "string option"
  targetOwner :: string
  targetRepo :: string
  maintainersTeam :: string
  proposalPingDays :: int
  proposalDormantDays :: int
  draftPingDays :: int
  acceptedPingDays :: int
  maintainerInactivityDays :: int
  pingCooldownDays :: int
  cfgDryRun :: bool
  discordWebhookUrl :: "string option"

text \<open>
  The configuration \<^verbatim>\<open>loadConfig\<close> returns when the environment sets the credentials
  and nothing else: every threshold is its default, read from the rules table as
  \<^verbatim>\<open>proposalRule?.pingAfterDays ?? 90\<close> and its siblings do.
\<close>

definition defaultConfig :: "string option \<Rightarrow> string option \<Rightarrow> string option \<Rightarrow> Config" where
  "defaultConfig token app key =
    \<lparr>githubToken = token, appId = app, appPrivateKey = key,
     targetOwner = ''modelcontextprotocol'', targetRepo = ''modelcontextprotocol'',
     maintainersTeam = ''core-maintainers'',
     proposalPingDays =
       (case getStalenessRule Proposal of Some r \<Rightarrow> pingAfterDays r | None \<Rightarrow> 90),
     proposalDormantDays =
       (case getStalenessRule Proposal of
          Some r \<Rightarrow> (case dormantAfterDays r of Some d \<Rightarrow> d | None \<Rightarrow> 180)
        | None \<Rightarrow> 180),
     draftPingDays =
       (case getStalenessRule Draft of Some r \<Rightarrow> pingAfterDays r | None \<Rightarrow> 90),
     acceptedPingDays =
       (case getStalenessRule Accepted of Some r \<Rightarrow> pingAfterDays r | None \<Rightarrow> 30),
     maintainerInactivityDays = MAINTAINER_INACTIVITY_DAYS,
     pingCooldownDays = PING_COOLDOWN_DAYS,
     cfgDryRun = False,
     discordWebhookUrl = None\<rparr>"

subsection \<open>The remote repository and the state of a run\<close>

text \<open>
  A request to the remote API, as the client hands it to Octokit. Owner and repository
  are the client's constants and are left out; \<^verbatim>\<open>octokit.paginate\<close> is one
  request whose answer is the whole listing.
\<close>

datatype request =
    GetRepoInstallation
  | SearchIssuesAndPullRequests string
  | ListForRepo string
  | ListComments nat
  | ListEvents nat
  | CreateComment nat string
  | AddLabels nat "string list"
  | RemoveLabel nat string
  | UpdateClosed nat
  | GetMembershipForUserInOrg string string string
  | ListMembersInOrg string string
  | GetIssue nat

text \<open>The calls that change the remote item: labels, comments, closing.\<close>

fun isMutation :: "request \<Rightarrow> bool" where
  "isMutation (CreateComment _ _) = True"
| "isMutation (AddLabels _ _) = True"
| "isMutation (RemoveLabel _ _) = True"
| "isMutation (UpdateClosed _) = True"
| "isMutation _ = False"

text \<open>
  The remote side is any deterministic environment: each endpoint answers from the
  requests made before (so the same call may fail once and succeed later, and a listing
  may show what an earlier call created), either with a thrown value or with its data.
  \<open>clock\<close> is what \<^verbatim>\<open>new Date()\<close> reads. \<open>landing\<close> is the one point where the
  order of the answers matters, the call that \<^verbatim>\<open>process\<close> does not await (see there).
\<close>

record remote =
  apps_getRepoInstallation :: "request list \<Rightarrow> thrown + nat"
  search_issuesAndPullRequests :: "request list \<Rightarrow> string \<Rightarrow> thrown + GitHubIssue list"
  issues_listForRepo :: "request list \<Rightarrow> string \<Rightarrow> thrown + GitHubIssue list"
  issues_listComments :: "request list \<Rightarrow> nat \<Rightarrow> thrown + GitHubComment list"
  issues_listEvents :: "request list \<Rightarrow> nat \<Rightarrow> thrown + GitHubEvent list"
  issues_createComment :: "request list \<Rightarrow> nat \<Rightarrow> string \<Rightarrow> thrown + string"
  issues_addLabels :: "request list \<Rightarrow> nat \<Rightarrow> string list \<Rightarrow> thrown + unit"
  issues_removeLabel :: "request list \<Rightarrow> nat \<Rightarrow> string \<Rightarrow> thrown + unit"
  issues_update :: "request list \<Rightarrow> nat \<Rightarrow> thrown + unit"
  teams_getMembershipForUserInOrg ::
    "request list \<Rightarrow> string \<Rightarrow> string \<Rightarrow> string \<Rightarrow> thrown + MembershipState"
  teams_listMembersInOrg :: "request list \<Rightarrow> string \<Rightarrow> string \<Rightarrow> thrown + string list"
  issues_get :: "request list \<Rightarrow> nat \<Rightarrow> thrown + GitHubIssue"
  clock :: "request list \<Rightarrow> int"
  landing :: "request list \<Rightarrow> nat option"

text \<open>
  What a run mutates: the requests made so far (oldest first), the client's
  \<^verbatim>\<open>initialized\<close> flag, and the resolver's \<^verbatim>\<open>maintainerSet\<close> and
  \<^verbatim>\<open>loadAttempted\<close>. A \<^verbatim>\<open>Set<string>\<close> is the list of its members in insertion order.
\<close>

record world =
  requests :: "request list"
  initialized :: bool
  maintainerSet :: "string list option"
  loadAttempted :: bool

record env =
  config :: Config
  api :: remote

type_synonym 'a io = "world \<Rightarrow> (thrown + 'a) \<times> world"

definition io_return :: "'a \<Rightarrow> 'a io" where
  "io_return x w = (Inr x, w)"

definition io_throw :: "thrown \<Rightarrow> 'a io" where
  "io_throw e w = (Inl e, w)"

text \<open>Sequencing awaited calls: a thrown value ends the sequence, the state is kept.\<close>

definition io_bind :: "'a io \<Rightarrow> ('a \<Rightarrow> 'b io) \<Rightarrow> 'b io" where
  "io_bind m f w = (case m w of (Inl e, w') \<Rightarrow> (Inl e, w') | (Inr x, w') \<Rightarrow> f x w')"

text \<open>\<^verbatim>\<open>try { m } catch (error) { h(error) }\<close>.\<close>

definition io_catch :: "'a io \<Rightarrow> (thrown \<Rightarrow> 'a io) \<Rightarrow> 'a io" where
  "io_catch m h w = (case m w of (Inl e, w') \<Rightarrow> h e w' | (Inr x, w') \<Rightarrow> (Inr x, w'))"

text \<open>One request: the endpoint answers from the history, the request joins it.\<close>

definition send :: "request \<Rightarrow> (request list \<Rightarrow> thrown + 'a) \<Rightarrow> 'a io" where
  "send r endpoint w = (endpoint (requests w), w\<lparr>requests := requests w @ [r]\<rparr>)"

text \<open>\<^verbatim>\<open>new Date()\<close>.\<close>

definition now :: "env \<Rightarrow> int io" where
  "now e w = (Inr (clock (api e) (requests w)), w)"

subsection \<open>The repository client (\<^verbatim>\<open>github/client.ts\<close>)\<close>

text \<open>
  The constructor: a direct token makes the client ready at once; otherwise
  \<^verbatim>\<open>ensureInitialized\<close> has to exchange the app credentials first.
\<close>

definition newWorld :: "Config \<Rightarrow> world" where
  "newWorld c =
    \<lparr>requests = [], initialized = truthy (githubToken c),
     maintainerSet = None, loadAttempted = False\<rparr>"

definition ensureInitialized :: "env \<Rightarrow> unit io" where
  "ensureInitialized e w =
    (if initialized w then io_return () w
     else if truthy (appId (config e)) \<and> truthy (appPrivateKey (config e)) then
       io_bind (send GetRepoInstallation (apps_getRepoInstallation (api e)))
         (\<lambda>installation w'. (Inr (), w'\<lparr>initialized := True\<rparr>)) w
     else io_throw (JSError ''No authentication configured'' None) w)"

definition searchIssues :: "env \<Rightarrow> string \<Rightarrow> GitHubIssue list io" where
  "searchIssues e query =
    io_bind (ensureInitialized e) (\<lambda>_.
      let fullQuery = ''repo:'' @ targetOwner (config e) @ ''/'' @ targetRepo (config e)
            @ '' '' @ query
      in send (SearchIssuesAndPullRequests fullQuery)
           (\<lambda>h. search_issuesAndPullRequests (api e) h fullQuery))"

definition getIssuesWithLabel :: "env \<Rightarrow> string \<Rightarrow> GitHubIssue list io" where
  "getIssuesWithLabel e label =
    io_bind (ensureInitialized e) (\<lambda>_.
      send (ListForRepo label) (\<lambda>h. issues_listForRepo (api e) h label))"

definition getComments :: "env \<Rightarrow> nat \<Rightarrow> GitHubComment list io" where
  "getComments e issueNumber =
    io_bind (ensureInitialized e) (\<lambda>_.
      send (ListComments issueNumber) (\<lambda>h. issues_listComments (api e) h issueNumber))"

definition getEvents :: "env \<Rightarrow> nat \<Rightarrow> GitHubEvent list io" where
  "getEvents e issueNumber =
    io_bind (ensureInitialized e) (\<lambda>_.
      send (ListEvents issueNumber) (\<lambda>h. issues_listEvents (api e) h issueNumber))"

text \<open>\<^verbatim>\<open>addComment\<close> returns the new comment's URL.\<close>

definition addComment :: "env \<Rightarrow> nat \<Rightarrow> string \<Rightarrow> string io" where
  "addComment e issueNumber text =
    io_bind (ensureInitialized e) (\<lambda>_.
      send (CreateComment issueNumber text)
        (\<lambda>h. issues_createComment (api e) h issueNumber text))"

definition addLabels :: "env \<Rightarrow> nat \<Rightarrow> string list \<Rightarrow> unit io" where
  "addLabels e issueNumber ls =
    io_bind (ensureInitialized e) (\<lambda>_.
      send (AddLabels issueNumber ls) (\<lambda>h. issues_addLabels (api e) h issueNumber ls))"

text \<open>The \<^verbatim>\<open>catch\<close> covers the request only, not \<^verbatim>\<open>ensureInitialized\<close>.\<close>

definition removeLabel :: "env \<Rightarrow> nat \<Rightarrow> string \<Rightarrow> unit io" where
  "removeLabel e issueNumber label =
    io_bind (ensureInitialized e) (\<lambda>_.
      io_catch
        (send (RemoveLabel issueNumber label)
           (\<lambda>h. issues_removeLabel (api e) h issueNumber label))
        (\<lambda>err. if isHttpError err 404 then io_return () else io_throw err))"

definition closeIssue :: "env \<Rightarrow> nat \<Rightarrow> unit io" where
  "closeIssue e issueNumber =
    io_bind (ensureInitialized e) (\<lambda>_.
      send (UpdateClosed issueNumber) (\<lambda>h. issues_update (api e) h issueNumber))"

definition isTeamMember :: "env \<Rightarrow> string \<Rightarrow> string \<Rightarrow> string \<Rightarrow> bool io" where
  "isTeamMember e org teamSlug username =
    io_bind (ensureInitialized e) (\<lambda>_.
      io_catch
        (io_bind
           (send (GetMembershipForUserInOrg org teamSlug username)
              (\<lambda>h. teams_getMembershipForUserInOrg (api e) h org teamSlug username))
           (\<lambda>membership. io_return (membership = Active)))
        (\<lambda>err. if isHttpError err 404 then io_return False else io_throw err))"

definition getTeamMembers :: "env \<Rightarrow> string \<Rightarrow> string \<Rightarrow> string list io" where
  "getTeamMembers e org teamSlug =
    io_bind (ensureInitialized e) (\<lambda>_.
      send (ListMembersInOrg org teamSlug)
        (\<lambda>h. teams_listMembersInOrg (api e) h org teamSlug))"

definition getIssue :: "env \<Rightarrow> nat \<Rightarrow> GitHubIssue io" where
  "getIssue e issueNumber =
    io_bind (ensureInitialized e) (\<lambda>_.
      send (GetIssue issueNumber) (\<lambda>h. issues_get (api e) h issueNumber))"

subsection \<open>The maintainer resolver (\<^verbatim>\<open>maintainers/resolver.ts\<close>)\<close>

definition SPONSOR_TEAMS :: "string list" where
  "SPONSOR_TEAMS =
    [''core-maintainers'', ''moderators'', ''working-groups'', ''interest-groups'',
     ''sdk-maintainers'', ''inspector-maintainers'', ''mcpb-maintainers'',
     ''docs-maintainers'', ''lead-maintainers'']"

definition FALLBACK_SPONSORS :: "string list" where
  "FALLBACK_SPONSORS =
    [''jspahrsummers'', ''pcarleton'', ''CaitieM20'', ''pwwpche'', ''kurtisvg'',
     ''localden'', ''nickcoai'', ''000-000-000-000-000'', ''dsp-ant'', ''bhosmer-ant'',
     ''jonathanhefner'', ''cliffhall'', ''evalstate'', ''tadasant'', ''maheshmurag'',
     ''olaservo'', ''jerome3o-anthropic'', ''toby'', ''aaronpk'', ''felixweinberger'',
     ''domdomegg'', ''rdimitrov'', ''an-dustin'', ''LucaButBoring'', ''D-McAdams'',
     ''jenn-newton'', ''og-ant'', ''petery-ant'', ''sambhav'', ''PederHP'', ''mattt'',
     ''koic'', ''michaelneale'', ''fabpot'', ''atesgoral'', ''halter73'',
     ''nicolas-grekas'', ''markpollack'', ''ochafik'', ''stallent'', ''ignatov'',
     ''alexhancock'', ''KKonstantinov'', ''ansaba'', ''pronskiy'', ''Nyholm'', ''tzolov'',
     ''kpavlov'', ''topherbullock'', ''movetz'', ''chemicL'', ''stephentoub'',
     ''eiriktsarpalis'', ''chr-hertel'', ''maciej-kisiel'', ''e5l'', ''jamadeo'',
     ''felixrieseberg'', ''MarshallOfSound'', ''asklar'', ''joan-anthropic'', ''ihrpr'',
     ''a-akimov'']"

text \<open>\<^verbatim>\<open>set.add(member)\<close> on the insertion-ordered list of members.\<close>

definition set_add :: "string list \<Rightarrow> string \<Rightarrow> string list" where
  "set_add members member = (if member \<in> set members then members else members @ [member])"

text \<open>
  The loop over \<^verbatim>\<open>SPONSOR_TEAMS\<close>: a team whose listing fails is skipped.
\<close>

fun loadTeams :: "env \<Rightarrow> string list \<Rightarrow> string list \<Rightarrow> string list io" where
  "loadTeams e [] allMembers = io_return allMembers"
| "loadTeams e (team # teams) allMembers =
     io_bind
       (io_catch
          (io_bind (getTeamMembers e (targetOwner (config e)) team)
             (\<lambda>members. io_return (foldl set_add allMembers members)))
          (\<lambda>err. io_return allMembers))
       (\<lambda>allMembers'. loadTeams e teams allMembers')"

definition ensureSponsorsLoaded :: "env \<Rightarrow> string list io" where
  "ensureSponsorsLoaded e w =
    (case maintainerSet w of
       Some sponsors \<Rightarrow> (Inr sponsors, w)
     | None \<Rightarrow>
         if loadAttempted w then (Inr FALLBACK_SPONSORS, w)
         else
           io_catch
             (io_bind (loadTeams e SPONSOR_TEAMS [])
                (\<lambda>allMembers w1.
                   if allMembers \<noteq> [] then
                     (Inr allMembers, w1\<lparr>maintainerSet := Some allMembers\<rparr>)
                   else io_throw (JSError ''No team members loaded from any team'' None) w1))
             (\<lambda>err w2. (Inr FALLBACK_SPONSORS, w2\<lparr>maintainerSet := Some FALLBACK_SPONSORS\<rparr>))
             (w\<lparr>loadAttempted := True\<rparr>))"

definition canSponsor :: "env \<Rightarrow> string \<Rightarrow> bool io" where
  "canSponsor e username =
    io_bind (ensureSponsorsLoaded e) (\<lambda>sponsors. io_return (username \<in> set sponsors))"

definition isCoreMaintainer :: "env \<Rightarrow> string \<Rightarrow> bool io" where
  "isCoreMaintainer e username = canSponsor e username"

fun getSponsor :: "env \<Rightarrow> string list \<Rightarrow> string option io" where
  "getSponsor e [] = io_return None"
| "getSponsor e (assignee # rest) =
     io_bind (canSponsor e assignee)
       (\<lambda>ok. if ok then io_return (Some assignee) else getSponsor e rest)"

subsection \<open>Comment templates (\<^verbatim>\<open>actions/comment.ts\<close>)\<close>

definition newline :: string where
  "newline = [CHR 0x0A]"

text \<open>The right arrow U+2192, in UTF-8.\<close>

definition arrow :: string where
  "arrow = [CHR 0xE2, CHR 0x86, CHR 0x92]"

text \<open>
  The two error texts for an invalid transition (\<^verbatim>\<open>transition.ts\<close> line 99,
  \<^verbatim>\<open>ping.ts\<close> line 229) hold, where an arrow was meant, the three characters
  U+00E2, U+2020 and U+2019: in UTF-8 the bytes C3 A2, E2 80 A0, E2 80 99.
\<close>

definition garbledArrow :: string where
  "garbledArrow = [CHR 0xC3, CHR 0xA2, CHR 0xE2, CHR 0x80, CHR 0xA0, CHR 0xE2, CHR 0x80, CHR 0x99]"

text \<open>A \<^verbatim>\<open>SEPStateOrNone\<close> as text: \<open>None\<close> is the pseudo-state \<^verbatim>\<open>'none'\<close>.\<close>

fun stateOrNone :: "SEPState option \<Rightarrow> string" where
  "stateOrNone None = ''none''"
| "stateOrNone (Some s) = stateLabel s"

definition createTransitionComment :: "SEPItem \<Rightarrow> SEPState option \<Rightarrow> SEPState option \<Rightarrow> string \<Rightarrow> string" where
  "createTransitionComment it from to sponsor =
    join newline
      [BOT_COMMENT_MARKER,
       [],
       ''## State Transition: '' @ stateOrNone from @ '' '' @ arrow @ '' '' @ stateOrNone to,
       [],
       ''This SEP has been transitioned from **'' @ stateOrNone from @ ''** to **'' @
         stateOrNone to @ ''**.'',
       [],
       (if to = Some Draft then ''@'' @ sponsor @
         '' has been assigned as the sponsor for this SEP.'' else []),
       [],
       ''---'',
       ''*This is an automated message from the SEP lifecycle bot.*'']"

definition createAuthorPingComment :: "SEPItem \<Rightarrow> int \<Rightarrow> string" where
  "createAuthorPingComment it days =
    join newline
      [BOT_COMMENT_MARKER,
       [],
       ''## Friendly Reminder'',
       [],
       ''Hi @'' @ author it @ ''!'',
       [],
       ''This SEP proposal has been inactive for **'' @ showInt days @ '' days**.'',
       [],
       ''We wanted to check in:'',
       ''- Are you still working on this proposal?'',
       ''- Is there anything blocking progress?'',
       ''- Do you need help finding a sponsor?'',
       [],
       ''If this proposal is no longer being pursued, please let us know and we can close it. Otherwise, any update on the current status would be appreciated!'',
       [],
       ''---'',
       ''*This is an automated message from the SEP lifecycle bot.*'']"

definition createSponsorPingComment :: "SEPItem \<Rightarrow> string \<Rightarrow> int \<Rightarrow> string" where
  "createSponsorPingComment it sponsor days =
    join newline
      [BOT_COMMENT_MARKER,
       [],
       ''## Sponsor Check-in'',
       [],
       ''Hi @'' @ sponsor @ ''!'',
       [],
       ''This SEP draft has been inactive for **'' @ showInt days @ '' days**.'',
       [],
       ''As the sponsor for this SEP, we wanted to check:'',
       ''- Is there ongoing work on this draft?'',
       ''- Are there any blockers we can help with?'',
       ''- Should this SEP be moved to a different state?'',
       [],
       ''Please provide an update when you have a chance.'',
       [],
       ''---'',
       ''*This is an automated message from the SEP lifecycle bot.*'']"

definition createMaintainerPingComment :: "SEPItem \<Rightarrow> string \<Rightarrow> int \<Rightarrow> string" where
  "createMaintainerPingComment it maintainer days =
    join newline
      [BOT_COMMENT_MARKER,
       [],
       ''## Maintainer Activity Check'',
       [],
       ''Hi @'' @ maintainer @ ''!'',
       [],
       ''You're assigned to this SEP but there hasn't been any activity from you in **'' @
         showInt days @ '' days**.'',
       [],
       ''Please provide an update on:'',
       ''- Current status of your review/work'',
       ''- Any blockers or concerns'',
       ''- Expected timeline for next steps'',
       [],
       ''If you're no longer able to sponsor this SEP, please let us know so we can find another maintainer.'',
       [],
       ''---'',
       ''*This is an automated message from the SEP lifecycle bot.*'']"

definition createDormantComment :: "SEPItem \<Rightarrow> int \<Rightarrow> string" where
  "createDormantComment it days =
    join newline
      [BOT_COMMENT_MARKER,
       [],
       ''## Marking as Dormant'',
       [],
       ''This SEP proposal has been inactive for **'' @ showInt days @
         '' days** and is being marked as **dormant**.'',
       [],
       ''This SEP is being closed, but it can be reopened if work resumes. To reactivate:'',
       ''1. Comment on this issue/PR with an update'',
       ''2. A maintainer can remove the `dormant` label and reopen'',
       [],
       ''Thank you for your contribution!'',
       [],
       ''---'',
       ''*This is an automated message from the SEP lifecycle bot.*'']"

definition createNeedsSponsorComment :: "SEPItem \<Rightarrow> int \<Rightarrow> string" where
  "createNeedsSponsorComment it days =
    join newline
      [BOT_COMMENT_MARKER,
       [],
       ''## Core Maintainer Sponsor Needed'',
       [],
       ''This SEP draft has been inactive for **'' @ showInt days @
         '' days** and doesn't have a core maintainer sponsor assigned.'',
       [],
       ''For a SEP to progress from draft, it needs a sponsor from the core maintainers team who can:'',
       ''- Guide the proposal through the review process'',
       ''- Help address feedback and blockers'',
       ''- Champion the SEP in maintainer discussions'',
       [],
       ''**Current assignees**: '' @
         (if assignees it \<noteq> [] then join '', '' (map (\<lambda>a. ''@'' @
         a) (assignees it)) else ''None''),
       [],
       ''If you're a core maintainer interested in sponsoring this SEP, please assign yourself. If you're the author, consider reaching out to the maintainers team to find a sponsor.'',
       [],
       ''---'',
       ''*This is an automated message from the SEP lifecycle bot.*'']"

definition createAcceptedReminderComment :: "SEPItem \<Rightarrow> int \<Rightarrow> string" where
  "createAcceptedReminderComment it days =
    join newline
      [BOT_COMMENT_MARKER,
       [],
       ''## Reference Implementation Reminder'',
       [],
       ''Hi @'' @ author it @ ''!'',
       [],
       ''This SEP was accepted **'' @ showInt days @ '' days ago**.'',
       [],
       ''A reminder that accepted SEPs should have a reference implementation to move to **final** status.'',
       [],
       ''- Is there a reference implementation in progress?'',
       ''- Do you need help or guidance with the implementation?'',
       [],
       ''Let us know the current status!'',
       [],
       ''---'',
       ''*This is an automated message from the SEP lifecycle bot.*'']"

subsection \<open>The staleness analyzer (\<^verbatim>\<open>sep/analyzer.ts\<close>)\<close>

definition analyzeProposal :: "env \<Rightarrow> SEPItem \<Rightarrow> int \<Rightarrow> StaleAnalysis" where
  "analyzeProposal e it days =
    (if days \<ge> proposalDormantDays (config e) then
       \<lparr>item = it, daysSinceActivity = days, shouldPing = False, shouldMarkDormant = True,
        shouldClose = True, pingTarget = None,
        reason = Some (''Proposal inactive for '' @ showInt days @ '' days (threshold: ''
          @ showInt (proposalDormantDays (config e)) @ '')'')\<rparr>
     else if days \<ge> proposalPingDays (config e) then
       \<lparr>item = it, daysSinceActivity = days, shouldPing = True, shouldMarkDormant = False,
        shouldClose = False, pingTarget = Some Author,
        reason = Some (''Proposal inactive for '' @ showInt days @ '' days (threshold: ''
          @ showInt (proposalPingDays (config e)) @ '')'')\<rparr>
     else
       \<lparr>item = it, daysSinceActivity = days, shouldPing = False, shouldMarkDormant = False,
        shouldClose = False, pingTarget = None, reason = None\<rparr>)"

definition analyzeDraft :: "env \<Rightarrow> SEPItem \<Rightarrow> int \<Rightarrow> StaleAnalysis" where
  "analyzeDraft e it days =
    (if days \<ge> draftPingDays (config e) then
       \<lparr>item = it, daysSinceActivity = days, shouldPing = True, shouldMarkDormant = False,
        shouldClose = False, pingTarget = Some Sponsor,
        reason = Some (''Draft inactive for '' @ showInt days @ '' days (threshold: ''
          @ showInt (draftPingDays (config e)) @ '')'')\<rparr>
     else
       \<lparr>item = it, daysSinceActivity = days, shouldPing = False, shouldMarkDormant = False,
        shouldClose = False, pingTarget = None, reason = None\<rparr>)"

definition analyzeAccepted :: "env \<Rightarrow> SEPItem \<Rightarrow> int \<Rightarrow> StaleAnalysis" where
  "analyzeAccepted e it days =
    (if days \<ge> acceptedPingDays (config e) then
       \<lparr>item = it, daysSinceActivity = days, shouldPing = True, shouldMarkDormant = False,
        shouldClose = False, pingTarget = Some Author,
        reason = Some (''Accepted SEP inactive for '' @ showInt days
          @ '' days - awaiting reference implementation'')\<rparr>
     else
       \<lparr>item = it, daysSinceActivity = days, shouldPing = False, shouldMarkDormant = False,
        shouldClose = False, pingTarget = None, reason = None\<rparr>)"

text \<open>
  The loop of \<^verbatim>\<open>getLastBotPingDate\<close> walks the listing from its last comment to its
  first and returns at the first body that includes the marker; \<open>lastMarked\<close> is that
  walk, over the reversed listing.
\<close>

fun lastMarked :: "GitHubComment list \<Rightarrow> int option" where
  "lastMarked [] = None"
| "lastMarked (c # earlier) =
     (if str_includes (body c) BOT_COMMENT_MARKER then Some (created_at c)
      else lastMarked earlier)"

definition getLastBotPingDate :: "env \<Rightarrow> nat \<Rightarrow> int option io" where
  "getLastBotPingDate e issueNumber =
    io_bind (getComments e issueNumber) (\<lambda>comments. io_return (lastMarked (rev comments)))"

text \<open>The \<^verbatim>\<open>switch\<close> on the item's state at the end of \<^verbatim>\<open>analyze\<close>.\<close>

definition analyzeByState :: "env \<Rightarrow> SEPItem \<Rightarrow> int \<Rightarrow> StaleAnalysis" where
  "analyzeByState e it days =
    (case state it of
       Some Proposal \<Rightarrow> analyzeProposal e it days
     | Some Draft \<Rightarrow> analyzeDraft e it days
     | Some Accepted \<Rightarrow> analyzeAccepted e it days
     | _ \<Rightarrow>
       \<lparr>item = it, daysSinceActivity = days, shouldPing = False, shouldMarkDormant = False,
        shouldClose = False, pingTarget = None, reason = None\<rparr>)"

definition analyze :: "env \<Rightarrow> SEPItem \<Rightarrow> StaleAnalysis io" where
  "analyze e it =
    io_bind (now e) (\<lambda>t.
      let days = daysBetween (updatedAt it) t in
      io_bind (getLastBotPingDate e (number it)) (\<lambda>lastPingDate.
        case lastPingDate of
          None \<Rightarrow> io_return (analyzeByState e it days)
        | Some pinged \<Rightarrow>
            let daysSincePing = daysBetween pinged t in
            if daysSincePing < pingCooldownDays (config e) then
              io_return
                \<lparr>item = it, daysSinceActivity = days, shouldPing = False,
                 shouldMarkDormant = False, shouldClose = False, pingTarget = None,
                 reason = Some (''Recently pinged '' @ showInt daysSincePing
                   @ '' days ago (cooldown: '' @ showInt (pingCooldownDays (config e))
                   @ '' days)'')\<rparr>
            else io_return (analyzeByState e it days)))"

text \<open>
  \<^verbatim>\<open>checkMaintainerActivity\<close>: the latest event or comment of that user; the two loops
  keep the later date.
\<close>

fun latestEvent :: "string \<Rightarrow> GitHubEvent list \<Rightarrow> int option \<Rightarrow> int option" where
  "latestEvent username [] lastActivity = lastActivity"
| "latestEvent username (ev # evs) lastActivity =
     latestEvent username evs
       (if actor ev = Some username then
          (case lastActivity of
             None \<Rightarrow> Some (event_created_at ev)
           | Some d \<Rightarrow> if event_created_at ev > d then Some (event_created_at ev) else Some d)
        else lastActivity)"

fun latestComment :: "string \<Rightarrow> GitHubComment list \<Rightarrow> int option \<Rightarrow> int option" where
  "latestComment username [] lastActivity = lastActivity"
| "latestComment username (c # cs) lastActivity =
     latestComment username cs
       (if user c = Some username then
          (case lastActivity of
             None \<Rightarrow> Some (created_at c)
           | Some d \<Rightarrow> if created_at c > d then Some (created_at c) else Some d)
        else lastActivity)"

definition checkMaintainerActivity :: "env \<Rightarrow> SEPItem \<Rightarrow> string \<Rightarrow> (int \<times> bool) io" where
  "checkMaintainerActivity e it maintainerUsername =
    io_bind (getEvents e (number it)) (\<lambda>events.
    io_bind (getComments e (number it)) (\<lambda>comments.
      let lastActivity =
            (case latestComment maintainerUsername comments
                    (latestEvent maintainerUsername events None) of
               None \<Rightarrow> updatedAt it
             | Some d \<Rightarrow> d)
      in io_bind (now e) (\<lambda>t.
           let daysSinceActivityValue = daysBetween lastActivity t in
           io_return
             (daysSinceActivityValue,
              daysSinceActivityValue \<ge> maintainerInactivityDays (config e)))))"

subsection \<open>The detector (\<^verbatim>\<open>sep/detector.ts\<close>)\<close>

definition UNKNOWN_AUTHOR :: string where
  "UNKNOWN_AUTHOR = ''unknown''"

definition toSEPItem :: "GitHubIssue \<Rightarrow> SEPItem" where
  "toSEPItem gi =
    \<lparr>sep_id = gh_id gi, number = gh_number gi, title = gh_title gi,
     itemType = (if gh_pull_request gi \<noteq> None then PR else Issue),
     state = extractState (gh_labels gi), labels = gh_labels gi,
     author = (case gh_user gi of Some login \<Rightarrow> login | None \<Rightarrow> UNKNOWN_AUTHOR),
     assignees = gh_assignees gi, createdAt = gh_created_at gi,
     updatedAt = gh_updated_at gi, url = gh_html_url gi,
     isClosed = (gh_state gi = Closed)\<rparr>"

text \<open>
  \<^verbatim>\<open>Map.prototype.set\<close> on a map kept as its entries in insertion order: a key already
  present keeps its place and takes the new value, a new key goes to the end.
\<close>

fun map_set :: "(nat \<times> 'v) list \<Rightarrow> nat \<Rightarrow> 'v \<Rightarrow> (nat \<times> 'v) list" where
  "map_set [] k v = [(k, v)]"
| "map_set ((k', v') # m) k v =
     (if k' = k then (k, v) # m else (k', v') # map_set m k v)"

text \<open>\<^verbatim>\<open>Array.from(map.values())\<close>.\<close>

definition map_values :: "(nat \<times> 'v) list \<Rightarrow> 'v list" where
  "map_values m = map snd m"

definition findAllSEPs :: "env \<Rightarrow> SEPItem list io" where
  "findAllSEPs e =
    io_bind (searchIssues e ''label:SEP is:open'') (\<lambda>labeledItems.
    io_bind (searchIssues e ''SEP in:title is:open'') (\<lambda>titledItems.
      let allItems = foldl (\<lambda>m gi. map_set m (gh_number gi) gi) [] (labeledItems @ titledItems)
      in io_return (map toSEPItem (map_values allItems))))"

subsection \<open>The transition handler (\<^verbatim>\<open>actions/transition.ts\<close>)\<close>

definition validateTransition :: "SEPState option \<Rightarrow> SEPState \<Rightarrow> bool \<times> string" where
  "validateTransition from to =
    (if isValidTransition from to then
       (True, if from \<noteq> None then ''Valid transition'' else ''Initial state assignment'')
     else
       (False,
        ''Invalid transition: '' @ (case from of Some s \<Rightarrow> stateLabel s | None \<Rightarrow> ''null'')
          @ '' '' @ garbledArrow @ '' '' @ stateLabel to @ ''. Valid targets: ''
          @ join '', '' (map stateLabel (case from of Some s \<Rightarrow> STATE_TRANSITIONS s | None \<Rightarrow> []))))"

definition executeTransition ::
  "env \<Rightarrow> SEPItem \<Rightarrow> SEPState \<Rightarrow> string \<Rightarrow> bool \<Rightarrow> ActionResult io" where
  "executeTransition e it to sponsor dry =
    (let from = state it;
         act = \<lparr>actionType = Transition, actionItem = it, targetUser = Some sponsor,
                fromState = from, toState = Some to,
                actionReason = ''Transitioning from '' @ stateOrNone from @ '' to '' @ stateLabel to,
                dryRun = dry\<rparr>
     in
       if from \<noteq> None \<and> \<not> fst (validateTransition from to) then
         io_return \<lparr>action = act, success = False,
                    error = Some (snd (validateTransition from to)), commentUrl = None\<rparr>
       else if dry then
         io_return \<lparr>action = act, success = True, error = None, commentUrl = None\<rparr>
       else
         io_catch
           (io_bind
              (case from of
                 Some s \<Rightarrow> removeLabel e (number it) (stateLabel s)
               | None \<Rightarrow> io_return ())
              (\<lambda>_. io_bind (addLabels e (number it) [stateLabel to])
              (\<lambda>_. io_bind
                 (addComment e (number it) (createTransitionComment it from (Some to) sponsor))
              (\<lambda>commentLink.
                 io_return \<lparr>action = act, success = True, error = None,
                            commentUrl = Some commentLink\<rparr>))))
           (\<lambda>err. io_return \<lparr>action = act, success = False,
                               error = Some (getErrorMessage err), commentUrl = None\<rparr>))"

subsection \<open>The ping handler (\<^verbatim>\<open>actions/ping.ts\<close>)\<close>

definition createAction ::
  "ActionType \<Rightarrow> SEPItem \<Rightarrow> bool \<Rightarrow> string \<Rightarrow> string option \<Rightarrow> SEPAction" where
  "createAction ty it dry why target =
    \<lparr>actionType = ty, actionItem = it, targetUser = target, fromState = None,
     toState = None, actionReason = why, dryRun = dry\<rparr>"

definition pingMaintainerDirectly ::
  "env \<Rightarrow> SEPItem \<Rightarrow> string \<Rightarrow> int \<Rightarrow> bool \<Rightarrow> ActionResult io" where
  "pingMaintainerDirectly e it maintainer days dry =
    (let act = createAction PingMaintainer it dry
                 (''Maintainer ping after '' @ showInt days @ '' days of inactivity'')
                 (Some maintainer)
     in
       if dry then io_return \<lparr>action = act, success = True, error = None, commentUrl = None\<rparr>
       else
         io_catch
           (io_bind
              (addComment e (number it) (createMaintainerPingComment it maintainer days))
              (\<lambda>commentLink.
                 io_return \<lparr>action = act, success = True, error = None,
                            commentUrl = Some commentLink\<rparr>))
           (\<lambda>err. io_return \<lparr>action = act, success = False,
                               error = Some (getErrorMessage err), commentUrl = None\<rparr>))"

definition pingAuthor :: "env \<Rightarrow> SEPItem \<Rightarrow> int \<Rightarrow> bool \<Rightarrow> ActionResult io" where
  "pingAuthor e it days dry =
    (let act = createAction PingAuthor it dry
                 (''Author ping after '' @ showInt days @ '' days of inactivity'')
                 (Some (author it))
     in
       if dry then io_return \<lparr>action = act, success = True, error = None, commentUrl = None\<rparr>
       else
         io_catch
           (io_bind
              (addComment e (number it)
                 (if state it = Some Accepted then createAcceptedReminderComment it days
                  else createAuthorPingComment it days))
              (\<lambda>commentLink.
                 io_return \<lparr>action = act, success = True, error = None,
                            commentUrl = Some commentLink\<rparr>))
           (\<lambda>err. io_return \<lparr>action = act, success = False,
                               error = Some (getErrorMessage err), commentUrl = None\<rparr>))"

definition postNeedsSponsor :: "env \<Rightarrow> SEPItem \<Rightarrow> int \<Rightarrow> bool \<Rightarrow> ActionResult io" where
  "postNeedsSponsor e it days dry =
    (let act = createAction NeedsSponsor it dry
                 (''Draft SEP needs core maintainer sponsor ('' @ showInt days
                    @ '' days inactive)'')
                 None
     in
       if dry then io_return \<lparr>action = act, success = True, error = None, commentUrl = None\<rparr>
       else
         io_catch
           (io_bind
              (addComment e (number it) (createNeedsSponsorComment it days))
              (\<lambda>commentLink.
                 io_return \<lparr>action = act, success = True, error = None,
                            commentUrl = Some commentLink\<rparr>))
           (\<lambda>err. io_return \<lparr>action = act, success = False,
                               error = Some (getErrorMessage err), commentUrl = None\<rparr>))"

definition pingSponsor :: "env \<Rightarrow> SEPItem \<Rightarrow> int \<Rightarrow> bool \<Rightarrow> ActionResult io" where
  "pingSponsor e it days dry =
    io_bind (getSponsor e (assignees it)) (\<lambda>found.
      if \<not> truthy found then postNeedsSponsor e it days dry
      else
        let sponsor = (case found of Some login \<Rightarrow> login | None \<Rightarrow> []);
            act = createAction PingSponsor it dry
                    (''Sponsor ping after '' @ showInt days @ '' days of inactivity'')
                    (Some sponsor)
        in
          if dry then
            io_return \<lparr>action = act, success = True, error = None, commentUrl = None\<rparr>
          else
            io_catch
              (io_bind
                 (addComment e (number it) (createSponsorPingComment it sponsor days))
                 (\<lambda>commentLink.
                    io_return \<lparr>action = act, success = True, error = None,
                               commentUrl = Some commentLink\<rparr>))
              (\<lambda>err. io_return \<lparr>action = act, success = False,
                                  error = Some (getErrorMessage err), commentUrl = None\<rparr>))"

definition pingMaintainer :: "env \<Rightarrow> SEPItem \<Rightarrow> int \<Rightarrow> bool \<Rightarrow> ActionResult io" where
  "pingMaintainer e it days dry =
    io_bind (getSponsor e (assignees it)) (\<lambda>found.
      if \<not> truthy found then
        io_return
          \<lparr>action = createAction PingMaintainer it dry ''No maintainer found'' None,
           success = False, error = Some ''No maintainer assigned'', commentUrl = None\<rparr>
      else
        pingMaintainerDirectly e it (case found of Some login \<Rightarrow> login | None \<Rightarrow> []) days dry)"

definition markDormant :: "env \<Rightarrow> SEPItem \<Rightarrow> int \<Rightarrow> bool \<Rightarrow> bool \<Rightarrow> ActionResult io" where
  "markDormant e it days close dry =
    (let act = createAction MarkDormant it dry
                 (''Marking dormant after '' @ showInt days @ '' days of inactivity'') None;
         rejected = (case state it of
                       Some s \<Rightarrow> Dormant \<notin> set (STATE_TRANSITIONS s)
                     | None \<Rightarrow> False)
     in
       if rejected then
         io_return
           \<lparr>action = act, success = False,
            error = Some (''Invalid transition: '' @ stateOrNone (state it) @ '' ''
              @ garbledArrow @ '' dormant. Valid targets: ''
              @ join '', ''
                  (map stateLabel
                     (case state it of Some s \<Rightarrow> STATE_TRANSITIONS s | None \<Rightarrow> []))),
            commentUrl = None\<rparr>
       else if dry then
         io_return \<lparr>action = act, success = True, error = None, commentUrl = None\<rparr>
       else
         io_catch
           (io_bind
              (case state it of
                 Some s \<Rightarrow>
                   if s \<noteq> Dormant then removeLabel e (number it) (stateLabel s)
                   else io_return ()
               | None \<Rightarrow> io_return ())
              (\<lambda>_. io_bind (addLabels e (number it) [''dormant''])
              (\<lambda>_. io_bind (addComment e (number it) (createDormantComment it days))
              (\<lambda>commentLink. io_bind
                 (if close then closeIssue e (number it) else io_return ())
              (\<lambda>_.
                 io_return \<lparr>action = act, success = True, error = None,
                            commentUrl = Some commentLink\<rparr>)))))
           (\<lambda>err. io_return \<lparr>action = act, success = False,
                               error = Some (getErrorMessage err), commentUrl = None\<rparr>))"

text \<open>
  \<^verbatim>\<open>executePing\<close>. The \<^verbatim>\<open>default\<close> branch of its \<^verbatim>\<open>switch\<close> needs a ping target
  outside the three of the type and has no counterpart here.
\<close>

definition executePing :: "env \<Rightarrow> StaleAnalysis \<Rightarrow> bool \<Rightarrow> ActionResult io" where
  "executePing e analysis dry =
    (if shouldMarkDormant analysis then
       markDormant e (item analysis) (daysSinceActivity analysis) (shouldClose analysis) dry
     else
       case pingTarget analysis of
         None \<Rightarrow>
           io_return
             \<lparr>action = createAction PingAuthor (item analysis) dry ''No ping target'' None,
              success = True, error = None, commentUrl = None\<rparr>
       | Some Author \<Rightarrow> pingAuthor e (item analysis) (daysSinceActivity analysis) dry
       | Some Sponsor \<Rightarrow> pingSponsor e (item analysis) (daysSinceActivity analysis) dry
       | Some Maintainer \<Rightarrow> pingMaintainer e (item analysis) (daysSinceActivity analysis) dry)"

subsection \<open>The processor (\<^verbatim>\<open>processor.ts\<close>)\<close>

record TransitionRow =
  tr_item :: SEPItem
  tr_fromState :: "SEPState option"
  tr_toState :: SEPState
  tr_sponsor :: string

record PingRow =
  pr_item :: SEPItem
  pr_pingTarget :: PingTarget
  pr_targetUser :: string
  pr_daysSinceActivity :: int

record NeedsSponsorRow =
  ns_item :: SEPItem
  ns_daysSinceActivity :: int

record DormantRow =
  dr_item :: SEPItem
  dr_daysSinceActivity :: int
  dr_wasClosed :: bool

record SummaryData =
  transitions :: "TransitionRow list"
  pings :: "PingRow list"
  needsSponsor :: "NeedsSponsorRow list"
  dormant :: "DormantRow list"

record ProcessResult =
  results :: "ActionResult list"
  summaryData :: SummaryData

definition emptySummary :: SummaryData where
  "emptySummary = \<lparr>transitions = [], pings = [], needsSponsor = [], dormant = []\<rparr>"

definition checkAutoTransition :: "env \<Rightarrow> SEPItem \<Rightarrow> ActionResult option io" where
  "checkAutoTransition e sep =
    (if state sep \<noteq> Some Proposal \<or> assignees sep = [] then io_return None
     else
       io_bind (getSponsor e (assignees sep)) (\<lambda>found.
         if \<not> truthy found then io_return None
         else
           io_bind
             (executeTransition e sep Draft
                (case found of Some login \<Rightarrow> login | None \<Rightarrow> []) (cfgDryRun (config e)))
             (\<lambda>r. io_return (Some r))))"

definition checkStaleness :: "env \<Rightarrow> SEPItem \<Rightarrow> ActionResult option io" where
  "checkStaleness e sep =
    io_bind (analyze e sep) (\<lambda>analysis.
      if \<not> shouldPing analysis \<and> \<not> shouldMarkDormant analysis then io_return None
      else io_bind (executePing e analysis (cfgDryRun (config e))) (\<lambda>r. io_return (Some r)))"

text \<open>The loop of \<^verbatim>\<open>checkMaintainerAccountability\<close> over the assignees.\<close>

fun accountability ::
  "env \<Rightarrow> SEPItem \<Rightarrow> string list \<Rightarrow> ActionResult list \<Rightarrow> ActionResult list io" where
  "accountability e sep [] acc = io_return acc"
| "accountability e sep (assignee # rest) acc =
     io_bind (isCoreMaintainer e assignee) (\<lambda>isMaintainer.
       if \<not> isMaintainer then accountability e sep rest acc
       else
         io_bind (checkMaintainerActivity e sep assignee) (\<lambda>activity.
           if snd activity then
             io_bind
               (pingMaintainerDirectly e sep assignee (fst activity) (cfgDryRun (config e)))
               (\<lambda>r. accountability e sep rest (acc @ [r]))
           else accountability e sep rest acc))"

definition checkMaintainerAccountability :: "env \<Rightarrow> SEPItem \<Rightarrow> ActionResult list io" where
  "checkMaintainerAccountability e sep = accountability e sep (assignees sep) []"

definition getTargetUser :: "env \<Rightarrow> SEPItem \<Rightarrow> PingTarget \<Rightarrow> string option io" where
  "getTargetUser e sep target =
    (case target of
       Author \<Rightarrow> io_return (Some (author sep))
     | Sponsor \<Rightarrow> getSponsor e (assignees sep)
     | Maintainer \<Rightarrow> getSponsor e (assignees sep))"

text \<open>
  \<^verbatim>\<open>updateSummaryFromStaleness\<close>, run to its end: it analyses the item again and then
  pushes the row that fits the action.
\<close>

definition updateSummaryFromStaleness ::
  "env \<Rightarrow> ActionResult \<Rightarrow> SEPItem \<Rightarrow> SummaryData \<Rightarrow> SummaryData io" where
  "updateSummaryFromStaleness e r sep summary =
    (if \<not> success r then io_return summary
     else
       io_bind (analyze e sep) (\<lambda>analysis.
         case actionType (action r) of
           NeedsSponsor \<Rightarrow>
             io_return
               (summary\<lparr>needsSponsor := needsSponsor summary @
                  [\<lparr>ns_item = sep, ns_daysSinceActivity = daysSinceActivity analysis\<rparr>]\<rparr>)
         | MarkDormant \<Rightarrow>
             io_return
               (summary\<lparr>dormant := dormant summary @
                  [\<lparr>dr_item = sep, dr_daysSinceActivity = daysSinceActivity analysis,
                    dr_wasClosed = shouldClose analysis\<rparr>]\<rparr>)
         | Transition \<Rightarrow> io_return summary
         | Close \<Rightarrow> io_return summary
         | _ \<Rightarrow>
             (case pingTarget analysis of
                None \<Rightarrow> io_return summary
              | Some target \<Rightarrow>
                  io_bind (getTargetUser e sep target) (\<lambda>found.
                    io_return
                      (summary\<lparr>pings := pings summary @
                         [\<lparr>pr_item = sep, pr_pingTarget = target,
                           pr_targetUser =
                             (case found of Some login \<Rightarrow> login | None \<Rightarrow> author sep),
                           pr_daysSinceActivity = daysSinceActivity analysis\<rparr>]\<rparr>)))))"

text \<open>
  The loop of \<^verbatim>\<open>process\<close> over the maintainer results: a row for each successful
  ping that names its target.
\<close>

fun maintainerRows ::
  "env \<Rightarrow> SEPItem \<Rightarrow> ActionResult list \<Rightarrow> PingRow list \<Rightarrow> PingRow list io" where
  "maintainerRows e sep [] rows = io_return rows"
| "maintainerRows e sep (r # rest) rows =
     (if success r \<and> truthy (targetUser (action r)) then
        io_bind
          (checkMaintainerActivity e sep
             (case targetUser (action r) of Some login \<Rightarrow> login | None \<Rightarrow> []))
          (\<lambda>activity.
             maintainerRows e sep rest
               (rows @
                  [\<lparr>pr_item = sep, pr_pingTarget = Maintainer,
                    pr_targetUser =
                      (case targetUser (action r) of Some login \<Rightarrow> login | None \<Rightarrow> []),
                    pr_daysSinceActivity = fst activity\<rparr>]))
      else maintainerRows e sep rest rows)"

text \<open>
  \<^verbatim>\<open>process\<close>. Line 79 of the source calls the \<^verbatim>\<open>async\<close> method
  \<^verbatim>\<open>updateSummaryFromStaleness\<close> without \<^verbatim>\<open>await\<close>. Such a call runs up to its first
  \<^verbatim>\<open>await\<close> and hands control back: when the staleness action failed it has returned
  by then (having pushed nothing); otherwise it is suspended inside \<^verbatim>\<open>analyze\<close>, before
  any push, and goes on only when the comment listing it asks for has been answered.
  \<^verbatim>\<open>process\<close> goes on without it.

  For an item that is neither a draft nor in review, \<^verbatim>\<open>process\<close> then returns without
  a further \<^verbatim>\<open>await\<close>: the update has not even made its request, and the summary that
  is returned holds no row of the staleness action.

  For a draft (or an item in review) \<^verbatim>\<open>process\<close> awaits the accountability pass. The
  update reads the clock at once and makes its listing request before any further request
  of \<^verbatim>\<open>process\<close>; once that listing is answered it makes no request of its own (the
  sponsors it may look up were resolved by the ping it reports on), so its row is fixed
  when it starts, and \<open>launchUpdate\<close> computes it there. What the order of the answers
  decides is whether, and where among the maintainer rows, the row has been pushed when
  \<^verbatim>\<open>process\<close> returns. The update can only go on while \<^verbatim>\<open>process\<close> waits for an answer
  of its own. \<open>landing\<close> of the remote side, asked with the requests made up to the start
  of the update, is \<open>Some k\<close> when the listing is answered in time for the row to be
  pushed after \<open>k\<close> maintainer rows (\<open>Some 0\<close>: answers come in the order of the
  requests), and \<open>None\<close> when it is answered after \<^verbatim>\<open>process\<close> has returned. An update
  that throws pushes no row.

  The model returns, next to the \<^verbatim>\<open>ProcessResult\<close> as it stands on return, the staleness
  result whose summary update is still outstanding (\<open>None\<close> when there is none).
\<close>

definition launchUpdate ::
  "env \<Rightarrow> SEPItem \<Rightarrow> ActionResult option \<Rightarrow> world \<Rightarrow> (thrown + SummaryData) option \<times> world"
  where
  "launchUpdate e sep outstanding w =
    (case outstanding of
       None \<Rightarrow> (None, w)
     | Some r \<Rightarrow>
         (case updateSummaryFromStaleness e r sep emptySummary w of
            (update, w') \<Rightarrow> (Some update, w')))"

text \<open>
  The summary on return and the update still outstanding: \<open>waited\<close> says whether
  \<^verbatim>\<open>process\<close> made a request after the update started, \<open>rows\<close> are the maintainer
  rows.
\<close>

definition settle ::
  "nat option \<Rightarrow> bool \<Rightarrow> (thrown + SummaryData) option \<Rightarrow> ActionResult option \<Rightarrow> PingRow list
     \<Rightarrow> SummaryData \<times> ActionResult option" where
  "settle lands waited launched outstanding rows =
    (case launched of
       None \<Rightarrow> (emptySummary\<lparr>pings := rows\<rparr>, None)
     | Some update \<Rightarrow>
         (case lands of
            None \<Rightarrow> (emptySummary\<lparr>pings := rows\<rparr>, outstanding)
          | Some k \<Rightarrow>
              if waited \<and> (k = 0 \<or> k < length rows) then
                (case update of
                   Inr pushed \<Rightarrow>
                     (pushed\<lparr>pings := take k rows @ pings pushed @ drop k rows\<rparr>, None)
                 | Inl err \<Rightarrow> (emptySummary\<lparr>pings := rows\<rparr>, None))
              else (emptySummary\<lparr>pings := rows\<rparr>, outstanding)))"

definition process :: "env \<Rightarrow> SEPItem \<Rightarrow> (ProcessResult \<times> ActionResult option) io" where
  "process e sep =
    (if isClosed sep then io_return (\<lparr>results = [], summaryData = emptySummary\<rparr>, None)
     else
       io_bind (checkAutoTransition e sep) (\<lambda>transitionResult.
         case transitionResult of
           Some tr \<Rightarrow>
             io_return
               (\<lparr>results = [tr],
                 summaryData =
                   (case toState (action tr) of
                      Some to \<Rightarrow>
                        if success tr then
                          emptySummary\<lparr>transitions :=
                            [\<lparr>tr_item = sep, tr_fromState = state sep, tr_toState = to,
                              tr_sponsor =
                                (case targetUser (action tr) of
                                   Some login \<Rightarrow> login
                                 | None \<Rightarrow> ''unknown'')\<rparr>]\<rparr>
                        else emptySummary
                    | None \<Rightarrow> emptySummary)\<rparr>,
                None)
         | None \<Rightarrow>
             io_bind (checkStaleness e sep) (\<lambda>stalenessResult.
               let results1 = (case stalenessResult of Some r \<Rightarrow> [r] | None \<Rightarrow> []);
                   outstanding =
                     (case stalenessResult of
                        Some r \<Rightarrow> if success r then Some r else None
                      | None \<Rightarrow> None)
               in
                 if state sep = Some Draft \<or> state sep = Some InReview then
                   (\<lambda>w2.
                      case launchUpdate e sep outstanding w2 of
                        (launched, w3) \<Rightarrow>
                          io_bind (checkMaintainerAccountability e sep) (\<lambda>maintainerResults.
                          io_bind (maintainerRows e sep maintainerResults []) (\<lambda>rows w5.
                            case settle (landing (api e) (requests w2))
                                   (requests w5 \<noteq> requests w3) launched outstanding rows of
                              (summary, left) \<Rightarrow>
                                (Inr (\<lparr>results = results1 @ maintainerResults,
                                       summaryData = summary\<rparr>, left), w5))) w3)
                 else
                   io_return
                     (\<lparr>results = results1, summaryData = emptySummary\<rparr>, outstanding))))"

subsection \<open>A remote side and an item to run the code on\<close>

text \<open>
  \<open>quietRemote\<close> answers every call with success and nothing to report, in the order
  of the requests; the examples below change one endpoint at a time. \<open>testConfig\<close> and \<open>testItem\<close> follow
  \<^verbatim>\<open>createMockConfig\<close> and \<^verbatim>\<open>createMockSEPItem\<close> of the test suite
  (\<^verbatim>\<open>test/mocks.ts\<close>); 1704067200000 is 2024-01-01.
\<close>

definition quietRemote :: remote where
  "quietRemote =
    \<lparr>apps_getRepoInstallation = (\<lambda>h. Inr 1),
     search_issuesAndPullRequests = (\<lambda>h q. Inr []),
     issues_listForRepo = (\<lambda>h l. Inr []),
     issues_listComments = (\<lambda>h n. Inr []),
     issues_listEvents = (\<lambda>h n. Inr []),
     issues_createComment = (\<lambda>h n b. Inr ''https://github.com/test/123#issuecomment-1''),
     issues_addLabels = (\<lambda>h n ls. Inr ()),
     issues_removeLabel = (\<lambda>h n l. Inr ()),
     issues_update = (\<lambda>h n. Inr ()),
     teams_getMembershipForUserInOrg = (\<lambda>h org team u. Inr Active),
     teams_listMembersInOrg = (\<lambda>h org team. Inr []),
     issues_get = (\<lambda>h n. Inl (JSError ''Not Found'' (Some 404))),
     clock = (\<lambda>h. 1704067200000),
     landing = (\<lambda>h. Some 0)\<rparr>"

definition testConfig :: Config where
  "testConfig =
    \<lparr>githubToken = Some ''test-token'', appId = None, appPrivateKey = None,
     targetOwner = ''test-owner'', targetRepo = ''test-repo'',
     maintainersTeam = ''core-maintainers'',
     proposalPingDays = 90, proposalDormantDays = 180, draftPingDays = 90,
     acceptedPingDays = 30, maintainerInactivityDays = 14, pingCooldownDays = 14,
     cfgDryRun = False, discordWebhookUrl = None\<rparr>"

definition testItem :: "SEPState option \<Rightarrow> SEPItem" where
  "testItem s =
    \<lparr>sep_id = 1, number = 123, title = ''Test SEP'', itemType = Issue, state = s,
     labels = ''SEP'' # (case s of Some l \<Rightarrow> [stateLabel l] | None \<Rightarrow> []),
     author = ''test-author'', assignees = [''maintainer1''],
     createdAt = 1704067200000, updatedAt = 1704067200000,
     url = ''https://github.com/test/123'', isClosed = False\<rparr>"

definition notFound :: thrown where
  "notFound = JSError ''Not Found'' (Some 404)"

definition testEnv :: "remote \<Rightarrow> env" where
  "testEnv r = \<lparr>config = testConfig, api = r\<rparr>"

text \<open>A remote side without the label and without the member, and one that is down.\<close>

definition notFoundRemote :: remote where
  "notFoundRemote =
    quietRemote\<lparr>issues_removeLabel := (\<lambda>h n l. Inl notFound),
                teams_getMembershipForUserInOrg := (\<lambda>h org team u. Inl notFound)\<rparr>"

definition brokenRemote :: remote where
  "brokenRemote =
    quietRemote\<lparr>issues_removeLabel := (\<lambda>h n l. Inl (JSError ''Server Error'' (Some 500))),
                teams_getMembershipForUserInOrg := (\<lambda>h org team u. Inl NonError)\<rparr>"

text \<open>
  An item last updated 200 days before the run whose listing ends with a comment that
  carries the marker and is one day old: first the bot's own, then one in which another
  user quotes the marker.
\<close>

definition testComment :: "string option \<Rightarrow> string \<Rightarrow> int \<Rightarrow> GitHubComment" where
  "testComment who text t =
    \<lparr>comment_id = 1, body = text, user = who, created_at = t, updated_at = t\<rparr>"

definition pingedRemote :: remote where
  "pingedRemote =
    quietRemote
      \<lparr>issues_listComments :=
         (\<lambda>h n. Inr [testComment (Some ''test-author'') ''Any thoughts?'' 1704067200000,
                     testComment (Some ''sep-bot'') (BOT_COMMENT_MARKER @ ''Friendly Reminder'')
                       (1704067200000 + 199 * MS_PER_DAY)]),
       clock := (\<lambda>h. 1704067200000 + 200 * MS_PER_DAY)\<rparr>"

definition quotedRemote :: remote where
  "quotedRemote =
    quietRemote
      \<lparr>issues_listComments :=
         (\<lambda>h n. Inr [testComment (Some ''passer-by'')
                       (''> '' @ BOT_COMMENT_MARKER @ '' what is this line?'')
                       (1704067200000 + 199 * MS_PER_DAY),
                     testComment (Some ''test-author'') ''No idea.''
                       (1704067200000 + 199 * MS_PER_DAY)]),
       clock := (\<lambda>h. 1704067200000 + 200 * MS_PER_DAY)\<rparr>"


text \<open>A run a given number of days after the test item was last updated.\<close>

definition laterRemote :: "int \<Rightarrow> remote" where
  "laterRemote days = quietRemote\<lparr>clock := (\<lambda>h. 1704067200000 + days * MS_PER_DAY)\<rparr>"

text \<open>
  Three open issues: the label search finds the first two, the title search the last
  two.
\<close>

definition testIssue :: "nat \<Rightarrow> string \<Rightarrow> GitHubIssue" where
  "testIssue n heading =
    \<lparr>gh_id = n, gh_number = n, gh_title = heading, gh_state = Open,
     gh_labels = [''SEP'', ''proposal''], gh_user = Some ''test-author'', gh_assignees = [],
     gh_created_at = 1704067200000, gh_updated_at = 1704067200000,
     gh_html_url = ''https://github.com/test/issue'', gh_pull_request = None\<rparr>"

definition searchRemote :: remote where
  "searchRemote =
    quietRemote
      \<lparr>search_issuesAndPullRequests :=
         (\<lambda>h q. if q = ''repo:test-owner/test-repo label:SEP is:open''
                 then Inr [testIssue 1 ''Sessions'', testIssue 2 ''SEP-2: Tasks'']
                 else Inr [testIssue 2 ''SEP-2: Tasks'', testIssue 3 ''SEP-3: Roots''])\<rparr>"

text \<open>
  A run 200 days after the test item was last updated, against a remote side whose
  core-maintainers team has the item's assignee as its one member.
\<close>

definition sponsorRemote :: remote where
  "sponsorRemote =
    quietRemote
      \<lparr>teams_listMembersInOrg :=
         (\<lambda>h org team. if team = ''core-maintainers'' then Inr [''maintainer1''] else Inr []),
       clock := (\<lambda>h. 1704067200000 + 200 * MS_PER_DAY)\<rparr>"

text \<open>
  A remote side that shows, in the comment listing of an issue, the comments created on
  it so far, each dated at the time of the listing.
\<close>

definition echoRemote :: "int \<Rightarrow> remote" where
  "echoRemote days =
    (laterRemote days)
      \<lparr>issues_listComments :=
         (\<lambda>h n. Inr (concat (map (\<lambda>r. case r of
                                        CreateComment m text \<Rightarrow>
                                          if m = n then
                                            [testComment (Some ''sep-bot'') text
                                               (1704067200000 + days * MS_PER_DAY)]
                                          else []
                                      | _ \<Rightarrow> []) h)))\<rparr>"

text \<open>The test item without assignees: a proposal nobody sponsors.\<close>

definition unassignedItem :: SEPItem where
  "unassignedItem = (testItem (Some Proposal))\<lparr>assignees := []\<rparr>"

text \<open>
  The analysis the tests of \<^verbatim>\<open>markDormant\<close> hand to \<^verbatim>\<open>executePing\<close>, and one that
  asks for a ping.
\<close>

definition dormantAnalysis :: "SEPState option \<Rightarrow> StaleAnalysis" where
  "dormantAnalysis s =
    \<lparr>item = testItem s, daysSinceActivity = 200, shouldPing = False,
     shouldMarkDormant = True, shouldClose = True, pingTarget = None,
     reason = Some ''Test''\<rparr>"

definition pingAnalysis :: "SEPState option \<Rightarrow> PingTarget \<Rightarrow> StaleAnalysis" where
  "pingAnalysis s target =
    \<lparr>item = testItem s, daysSinceActivity = 95, shouldPing = True,
     shouldMarkDormant = False, shouldClose = False, pingTarget = Some target,
     reason = Some ''Test''\<rparr>"

subsection \<open>What a call leaves behind\<close>

text \<open>The label, comment and close requests among those made so far.\<close>

definition mutationsOf :: "world \<Rightarrow> request list" where
  "mutationsOf w = filter isMutation (requests w)"


text \<open>What a call reports: the \<^verbatim>\<open>success\<close> flag of its result, if it returned one.\<close>

definition succeeded :: "(thrown + ActionResult) \<times> world \<Rightarrow> bool option" where
  "succeeded out = (case fst out of Inr r \<Rightarrow> Some (success r) | Inl err \<Rightarrow> None)"

text \<open>
  \<open>emits rs m\<close>: from any state, a run of \<open>m\<close> that returns has made exactly the
  mutating requests \<open>rs\<close>, in this order, and a run that throws has made an initial part
  of them. \<open>emits []\<close> says that \<open>m\<close> changes nothing on the remote side.
\<close>

definition emits :: "request list \<Rightarrow> 'a io \<Rightarrow> bool" where
  "emits rs m =
    (\<forall>w. case m w of
           (Inr x, w') \<Rightarrow> mutationsOf w' = mutationsOf w @ rs
         | (Inl err, w') \<Rightarrow> (\<exists>new. mutationsOf w' = mutationsOf w @ new \<and> prefix new rs))"



section \<open>Properties\<close>

lemmas io_defs = io_bind_def io_catch_def io_return_def io_throw_def send_def

lemma isHttpError_iff: "isHttpError err st = (\<exists>m. err = JSError m (Some st))"
  by (cases "(err, st)" rule: isHttpError.cases) auto

subsection \<open>The transition table\<close>

text \<open>
  Claim C1. For every source state \<open>S\<close> (one of the six, or absent) and every target
  \<open>T\<close>, \<open>isValidTransition S T\<close> is true exactly when \<open>S\<close> is absent or \<open>T\<close> is one of
  the outgoing edges of \<open>S\<close> in \<open>STATE_TRANSITIONS\<close>; in particular no transition out of
  \<open>Final\<close> is valid.
\<close>

theorem isValidTransition_iff_edge:
  "isValidTransition S T = (S = None \<or> (\<exists>s. S = Some s \<and> T \<in> set (STATE_TRANSITIONS s)))
   \<and> \<not> isValidTransition (Some Final) T"
  by (cases S) simp_all

subsection \<open>The client: not found is not an error\<close>

text \<open>
  Claim C9. When the remote API answers the label removal with a 404, \<open>removeLabel\<close>
  returns normally; when it answers the membership lookup with a 404, \<open>isTeamMember\<close>
  returns \<open>False\<close>. Every other failure of the two operations is thrown on to the
  caller: any other value the request throws, and a failure to authenticate before the
  request is made.
\<close>

theorem not_found_is_not_an_error:
  "(ensureInitialized e w = (Inr (), w0) \<longrightarrow>
      (issues_removeLabel (api e) (requests w0) n l = Inl (JSError m (Some 404))
         \<longrightarrow> fst (removeLabel e n l w) = Inr ())
    \<and> (teams_getMembershipForUserInOrg (api e) (requests w0) org team u
           = Inl (JSError m (Some 404))
         \<longrightarrow> fst (isTeamMember e org team u w) = Inr False)
    \<and> (issues_removeLabel (api e) (requests w0) n l = Inl err
           \<and> (\<forall>m'. err \<noteq> JSError m' (Some 404))
         \<longrightarrow> fst (removeLabel e n l w) = Inl err)
    \<and> (teams_getMembershipForUserInOrg (api e) (requests w0) org team u = Inl err
           \<and> (\<forall>m'. err \<noteq> JSError m' (Some 404))
         \<longrightarrow> fst (isTeamMember e org team u w) = Inl err))
   \<and> (ensureInitialized e w = (Inl err, w0) \<longrightarrow>
         fst (removeLabel e n l w) = Inl err
       \<and> fst (isTeamMember e org team u w) = Inl err)"
  by (auto simp: removeLabel_def isTeamMember_def io_defs isHttpError_iff
           split: prod.splits sum.splits)

theorem not_found_is_not_an_error_witness:
  "ensureInitialized (testEnv notFoundRemote) (newWorld testConfig) = (Inr (), newWorld testConfig)
   \<and> issues_removeLabel notFoundRemote [] 123 ''proposal'' = Inl (JSError ''Not Found'' (Some 404))
   \<and> fst (removeLabel (testEnv notFoundRemote) 123 ''proposal'' (newWorld testConfig)) = Inr ()
   \<and> fst (isTeamMember (testEnv notFoundRemote) ''test-owner'' ''core-maintainers''
          ''maintainer1'' (newWorld testConfig)) = Inr False
   \<and> fst (removeLabel (testEnv brokenRemote) 123 ''proposal'' (newWorld testConfig))
       = Inl (JSError ''Server Error'' (Some 500))
   \<and> fst (isTeamMember (testEnv brokenRemote) ''test-owner'' ''core-maintainers''
          ''maintainer1'' (newWorld testConfig)) = Inl NonError
   \<and> fst (removeLabel \<lparr>config = testConfig\<lparr>githubToken := None\<rparr>, api = quietRemote\<rparr> 123
          ''proposal'' (newWorld (testConfig\<lparr>githubToken := None\<rparr>)))
       = Inl (JSError ''No authentication configured'' None)"
  using
    not_found_is_not_an_error
      [of "testEnv notFoundRemote" "newWorld testConfig" "newWorld testConfig" 123
          "''proposal''" "''Not Found''" "''test-owner''" "''core-maintainers''"
          "''maintainer1''"]
    not_found_is_not_an_error
      [of "testEnv brokenRemote" "newWorld testConfig" "newWorld testConfig" 123
          "''proposal''" _ _ _ _ "JSError ''Server Error'' (Some 500)"]
    not_found_is_not_an_error
      [of "testEnv brokenRemote" "newWorld testConfig" "newWorld testConfig" _ _ _
          "''test-owner''" "''core-maintainers''" "''maintainer1''" NonError]
    not_found_is_not_an_error
      [of "\<lparr>config = testConfig\<lparr>githubToken := None\<rparr>, api = quietRemote\<rparr>"
          "newWorld (testConfig\<lparr>githubToken := None\<rparr>)"
          "newWorld (testConfig\<lparr>githubToken := None\<rparr>)"
          123 "''proposal''" _ _ _ _ "JSError ''No authentication configured'' None"]
  by (simp add: ensureInitialized_def newWorld_def testConfig_def testEnv_def quietRemote_def
        notFoundRemote_def brokenRemote_def notFound_def io_defs)

subsection \<open>The analyzer: cooldown and thresholds\<close>

lemma lastMarked_append:
  "lastMarked (xs @ ys) =
     (case lastMarked xs of Some d \<Rightarrow> Some d | None \<Rightarrow> lastMarked ys)"
  by (induction xs) simp_all

lemma lastMarked_none:
  "(\<forall>x\<in>set xs. \<not> str_includes (body x) BOT_COMMENT_MARKER) \<Longrightarrow> lastMarked xs = None"
  by (induction xs) simp_all

text \<open>The walk from the end of the listing stops at the last comment with the marker.\<close>

lemma lastMarked_last:
  assumes "str_includes (body c) BOT_COMMENT_MARKER"
    and "\<forall>x\<in>set later. \<not> str_includes (body x) BOT_COMMENT_MARKER"
  shows "lastMarked (rev (earlier @ c # later)) = Some (created_at c)"
  using assms by (simp add: lastMarked_append lastMarked_none)

text \<open>
  In a listing in chronological order, as the API gives it, that comment is the most
  recent one with the marker.
\<close>

lemma lastMarked_is_latest:
  assumes "sorted (map created_at cs)" and "lastMarked (rev cs) = Some d"
    and "c \<in> set cs" and "str_includes (body c) BOT_COMMENT_MARKER"
  shows "created_at c \<le> d"
  using assms
proof (induction cs rule: rev_induct)
  case Nil
  then show ?case by simp
next
  case (snoc x xs)
  show ?case
  proof (cases "str_includes (body x) BOT_COMMENT_MARKER")
    case True
    with snoc.prems(2) have "d = created_at x" by simp
    with snoc.prems(1,3) show ?thesis by (auto simp: sorted_append)
  next
    case False
    with snoc.prems have "sorted (map created_at xs)" "lastMarked (rev xs) = Some d" "c \<in> set xs"
      by (auto simp: sorted_append)
    with snoc.IH snoc.prems(4) show ?thesis by simp
  qed
qed

lemma str_includes_take: "take (length m) s = m \<Longrightarrow> str_includes s m"
  by (cases s) auto

lemma str_includes_append: "str_includes (pre @ m @ post) m"
  by (induction pre) (simp_all add: str_includes_take)

text \<open>Fewer than \<open>N\<close> whole days between two instants: fewer than \<open>N\<close> days of time.\<close>

lemma days_less: "(daysBetween d t < N) = (t - d < N * MS_PER_DAY)"
proof -
  define x where "x = t - d"
  have "x = 86400000 * (x div 86400000) + x mod 86400000" by simp
  moreover have "0 \<le> x mod 86400000" by simp
  moreover have "x mod 86400000 < 86400000" by simp
  ultimately have "(x div 86400000 < N) = (x < N * 86400000)" by linarith
  then show ?thesis by (simp add: daysBetween_def MS_PER_DAY_def x_def)
qed

lemma analyze_listing:
  assumes "getComments e (number it) w = (Inr cs, w')"
  shows "analyze e it w =
    (Inr (let t = clock (api e) (requests w); days = daysBetween (updatedAt it) t in
          case lastMarked (rev cs) of
            None \<Rightarrow> analyzeByState e it days
          | Some pinged \<Rightarrow>
              if daysBetween pinged t < pingCooldownDays (config e) then
                \<lparr>item = it, daysSinceActivity = days, shouldPing = False,
                 shouldMarkDormant = False, shouldClose = False, pingTarget = None,
                 reason = Some (''Recently pinged '' @ showInt (daysBetween pinged t)
                   @ '' days ago (cooldown: '' @ showInt (pingCooldownDays (config e))
                   @ '' days)'')\<rparr>
              else analyzeByState e it days), w')"
proof -
  have "getComments e (number it) (snd (now e w)) = (Inr cs, w')"
    using assms by (simp add: now_def)
  then show ?thesis
    by (simp add: analyze_def io_bind_def io_return_def now_def getLastBotPingDate_def Let_def
          split: option.splits)
qed

text \<open>
  Claim C3. Whatever the item and however long it has been inactive: when the comment
  listing holds a comment whose body includes the bot marker, and the most recent such
  comment (the last one of the listing, which is in chronological order) is less than
  \<open>pingCooldownDays\<close> days old when the analysis runs, \<open>analyze\<close> returns an
  analysis with \<open>shouldPing\<close> and \<open>shouldMarkDormant\<close> both false.
\<close>

theorem analyze_respects_cooldown:
  assumes listing: "getComments e (number it) w = (Inr (earlier @ c # later), w')"
    and marked: "str_includes (body c) BOT_COMMENT_MARKER"
    and latest: "\<forall>x\<in>set later. \<not> str_includes (body x) BOT_COMMENT_MARKER"
    and recent: "clock (api e) (requests w) - created_at c
                   < pingCooldownDays (config e) * MS_PER_DAY"
  shows "\<exists>a. analyze e it w = (Inr a, w') \<and> \<not> shouldPing a \<and> \<not> shouldMarkDormant a"
proof -
  have "lastMarked (rev (earlier @ c # later)) = Some (created_at c)"
    using marked latest by (rule lastMarked_last)
  moreover have "daysBetween (created_at c) (clock (api e) (requests w))
                   < pingCooldownDays (config e)"
    using recent by (simp add: days_less)
  ultimately show ?thesis
    by (simp add: analyze_listing [OF listing] Let_def del: rev_append rev.simps)
qed

lemmas test_defs = testEnv_def testConfig_def testItem_def testComment_def newWorld_def
  quietRemote_def

lemma getComments_test:
  "getComments (testEnv r) n (newWorld testConfig)
     = (issues_listComments r [] n, (newWorld testConfig)\<lparr>requests := [ListComments n]\<rparr>)"
  by (simp add: getComments_def ensureInitialized_def io_defs testEnv_def testConfig_def
        newWorld_def)

theorem analyze_respects_cooldown_witness:
  "getComments (testEnv pingedRemote) 123 (newWorld testConfig)
     = (Inr ([testComment (Some ''test-author'') ''Any thoughts?'' 1704067200000]
             @ testComment (Some ''sep-bot'') (BOT_COMMENT_MARKER @ ''Friendly Reminder'')
                 (1704067200000 + 199 * MS_PER_DAY) # []),
        (newWorld testConfig)\<lparr>requests := [ListComments 123]\<rparr>)
   \<and> daysBetween (updatedAt (testItem (Some Proposal))) (clock pingedRemote []) = 200
   \<and> (\<exists>a. analyze (testEnv pingedRemote) (testItem (Some Proposal)) (newWorld testConfig)
            = (Inr a, (newWorld testConfig)\<lparr>requests := [ListComments 123]\<rparr>)
          \<and> \<not> shouldPing a \<and> \<not> shouldMarkDormant a)"
proof -
  have listing: "getComments (testEnv pingedRemote) (number (testItem (Some Proposal))) (newWorld testConfig)
     = (Inr ([testComment (Some ''test-author'') ''Any thoughts?'' 1704067200000]
             @ testComment (Some ''sep-bot'') (BOT_COMMENT_MARKER @ ''Friendly Reminder'')
                 (1704067200000 + 199 * MS_PER_DAY) # []),
        (newWorld testConfig)\<lparr>requests := [ListComments 123]\<rparr>)"
    by (simp add: getComments_test pingedRemote_def quietRemote_def testItem_def)
  have marked: "str_includes (body (testComment (Some ''sep-bot'')
                  (BOT_COMMENT_MARKER @ ''Friendly Reminder'') (1704067200000 + 199 * MS_PER_DAY)))
                  BOT_COMMENT_MARKER"
    using str_includes_append [of "[]" BOT_COMMENT_MARKER "''Friendly Reminder''"]
    by (simp add: testComment_def)
  have recent: "clock (api (testEnv pingedRemote)) (requests (newWorld testConfig))
        - created_at (testComment (Some ''sep-bot'')
                  (BOT_COMMENT_MARKER @ ''Friendly Reminder'') (1704067200000 + 199 * MS_PER_DAY))
        < pingCooldownDays (config (testEnv pingedRemote)) * MS_PER_DAY"
    by (simp add: test_defs pingedRemote_def MS_PER_DAY_def)
  have days: "daysBetween (updatedAt (testItem (Some Proposal))) (clock pingedRemote []) = 200"
    by (simp add: test_defs pingedRemote_def MS_PER_DAY_def daysBetween_def)
  show ?thesis
    using analyze_respects_cooldown [OF listing marked _ recent] listing days
    by (simp add: testItem_def)
qed

lemma defaultConfig_thresholds:
  "proposalPingDays (defaultConfig t a k) = 90"
  "proposalDormantDays (defaultConfig t a k) = 180"
  "pingCooldownDays (defaultConfig t a k) = 14"
  by (simp_all add: defaultConfig_def getStalenessRule_def STALENESS_RULES_def
        PING_COOLDOWN_DAYS_def)

text \<open>
  Claim C4. Under the default configuration (ping after 90 days, dormant after 180), for
  an item in state \<open>Proposal\<close> with no bot comment that triggers the cooldown: at
  exactly 180 days of inactivity \<open>analyze\<close> yields \<open>shouldMarkDormant\<close> and
  \<open>shouldClose\<close>; at 179 days both are false; from 90 days on and below 180 it yields
  \<open>shouldPing\<close> with the author as target.
\<close>

theorem analyze_proposal_thresholds:
  assumes cfg: "config e = defaultConfig token app key"
    and proposal: "state it = Some Proposal"
    and listing: "getComments e (number it) w = (Inr cs, w')"
    and calm: "\<forall>d. lastMarked (rev cs) = Some d \<longrightarrow>
                 pingCooldownDays (config e) \<le> daysBetween d (clock (api e) (requests w))"
  shows "\<exists>a. analyze e it w = (Inr a, w')
      \<and> daysSinceActivity a = daysBetween (updatedAt it) (clock (api e) (requests w))
      \<and> (daysSinceActivity a = 180 \<longrightarrow> shouldMarkDormant a \<and> shouldClose a)
      \<and> (daysSinceActivity a = 179 \<longrightarrow> \<not> shouldMarkDormant a \<and> \<not> shouldClose a)
      \<and> (90 \<le> daysSinceActivity a \<and> daysSinceActivity a < 180 \<longrightarrow>
            shouldPing a \<and> pingTarget a = Some Author)"
proof -
  define days where "days = daysBetween (updatedAt it) (clock (api e) (requests w))"
  have byState: "analyze e it w = (Inr (analyzeByState e it days), w')"
  proof (cases "lastMarked (rev cs)")
    case None
    then show ?thesis by (simp add: analyze_listing [OF listing] Let_def days_def)
  next
    case (Some d)
    with calm have "\<not> daysBetween d (clock (api e) (requests w)) < pingCooldownDays (config e)"
      by simp
    with Some show ?thesis by (simp add: analyze_listing [OF listing] Let_def days_def)
  qed
  have "analyzeByState e it days = analyzeProposal e it days"
    using proposal by (simp add: analyzeByState_def)
  then show ?thesis
    unfolding byState days_def [symmetric]
    by (simp add: analyzeProposal_def cfg defaultConfig_thresholds)
qed

theorem analyze_proposal_thresholds_witness:
  "(\<exists>a. analyze \<lparr>config = defaultConfig (Some ''test-token'') None None, api = laterRemote 180\<rparr>
            (testItem (Some Proposal)) (newWorld testConfig)
          = (Inr a, (newWorld testConfig)\<lparr>requests := [ListComments 123]\<rparr>)
        \<and> daysSinceActivity a = 180 \<and> shouldMarkDormant a \<and> shouldClose a)
   \<and> (\<exists>a. analyze \<lparr>config = defaultConfig (Some ''test-token'') None None, api = laterRemote 179\<rparr>
            (testItem (Some Proposal)) (newWorld testConfig)
          = (Inr a, (newWorld testConfig)\<lparr>requests := [ListComments 123]\<rparr>)
        \<and> daysSinceActivity a = 179 \<and> \<not> shouldMarkDormant a \<and> \<not> shouldClose a
        \<and> shouldPing a \<and> pingTarget a = Some Author)
   \<and> (\<exists>a. analyze \<lparr>config = defaultConfig (Some ''test-token'') None None, api = laterRemote 90\<rparr>
            (testItem (Some Proposal)) (newWorld testConfig)
          = (Inr a, (newWorld testConfig)\<lparr>requests := [ListComments 123]\<rparr>)
        \<and> daysSinceActivity a = 90 \<and> shouldPing a \<and> pingTarget a = Some Author)"
proof -
  have listing: "getComments \<lparr>config = defaultConfig (Some ''test-token'') None None, api = laterRemote n\<rparr>
           (number (testItem (Some Proposal))) (newWorld testConfig)
         = (Inr [], (newWorld testConfig)\<lparr>requests := [ListComments 123]\<rparr>)" for n
    by (simp add: getComments_def ensureInitialized_def io_defs test_defs laterRemote_def)
  have days: "daysBetween (updatedAt (testItem (Some Proposal)))
           (clock (api \<lparr>config = defaultConfig (Some ''test-token'') None None, api = laterRemote n\<rparr>)
               (requests (newWorld testConfig))) = n" for n
    by (simp add: daysBetween_def test_defs laterRemote_def MS_PER_DAY_def)
  have proposal: "state (testItem (Some Proposal)) = Some Proposal"
    by (simp add: testItem_def)
  have cfg: "config \<lparr>config = defaultConfig (Some ''test-token'') None None, api = laterRemote n\<rparr>
      = defaultConfig (Some ''test-token'') None None" for n
    by simp
  note at = analyze_proposal_thresholds [OF cfg proposal listing, unfolded days, simplified]
  show ?thesis
    using at [of 180] at [of 179] at [of 90] by auto
qed

lemma ensureInitialized_mutations:
  "mutationsOf (snd (ensureInitialized e w)) = mutationsOf w"
  by (simp add: ensureInitialized_def io_defs mutationsOf_def split: sum.splits)

lemma getComments_mutations: "mutationsOf (snd (getComments e n w)) = mutationsOf w"
  by (simp add: getComments_def ensureInitialized_def io_defs mutationsOf_def
        split: sum.splits prod.splits)

text \<open>
  The cooldown check of \<open>analyze\<close> takes any comment whose body contains the marker
  text for a bot ping, whoever wrote it: when the most recent comment that contains the
  marker (also one in which some user merely quotes it) is within the cooldown window,
  the analysis asks for no ping, no dormant marking and no closing, and the staleness
  step of the processor does nothing for the item: \<open>checkStaleness\<close> returns no result
  and makes no request beyond reading the comments.
\<close>

theorem marker_of_any_author_suppresses:
  assumes listing: "getComments e (number sep) w = (Inr (earlier @ c\<lparr>user := anyone\<rparr> # later), w')"
    and quoted: "body c = pre @ BOT_COMMENT_MARKER @ post"
    and latest: "\<forall>x\<in>set later. \<not> str_includes (body x) BOT_COMMENT_MARKER"
    and recent: "daysBetween (created_at c) (clock (api e) (requests w))
                   < pingCooldownDays (config e)"
  shows "(\<exists>a. analyze e sep w = (Inr a, w') \<and> \<not> shouldPing a \<and> \<not> shouldMarkDormant a
              \<and> \<not> shouldClose a \<and> pingTarget a = None)
       \<and> checkStaleness e sep w = (Inr None, w')
       \<and> mutationsOf w' = mutationsOf w"
proof -
  have "str_includes (body (c\<lparr>user := anyone\<rparr>)) BOT_COMMENT_MARKER"
    by (simp add: quoted str_includes_append)
  then have "lastMarked (rev (earlier @ c\<lparr>user := anyone\<rparr> # later)) = Some (created_at c)"
    using latest lastMarked_last [of "c\<lparr>user := anyone\<rparr>" later earlier] by simp
  then have a: "analyze e sep w =
      (Inr \<lparr>item = sep,
            daysSinceActivity = daysBetween (updatedAt sep) (clock (api e) (requests w)),
            shouldPing = False, shouldMarkDormant = False, shouldClose = False,
            pingTarget = None,
            reason = Some (''Recently pinged ''
              @ showInt (daysBetween (created_at c) (clock (api e) (requests w)))
              @ '' days ago (cooldown: '' @ showInt (pingCooldownDays (config e))
              @ '' days)'')\<rparr>, w')"
    using recent by (simp add: analyze_listing [OF listing] Let_def del: rev_append rev.simps)
  have "mutationsOf w' = mutationsOf w"
    using getComments_mutations [of e "number sep" w] listing by simp
  then show ?thesis
    by (simp add: a checkStaleness_def io_bind_def io_return_def)
qed

theorem marker_of_any_author_suppresses_witness:
  "getComments (testEnv quotedRemote) 123 (newWorld testConfig)
     = (Inr [testComment (Some ''passer-by'')
               (''> '' @ BOT_COMMENT_MARKER @ '' what is this line?'')
               (1704067200000 + 199 * MS_PER_DAY),
             testComment (Some ''test-author'') ''No idea.'' (1704067200000 + 199 * MS_PER_DAY)],
        (newWorld testConfig)\<lparr>requests := [ListComments 123]\<rparr>)
   \<and> \<not> str_includes ''No idea.'' BOT_COMMENT_MARKER
   \<and> daysBetween (1704067200000 + 199 * MS_PER_DAY) (clock quotedRemote []) = 1
   \<and> daysBetween (updatedAt (testItem (Some Proposal))) (clock quotedRemote []) = 200
   \<and> checkStaleness (testEnv quotedRemote) (testItem (Some Proposal)) (newWorld testConfig)
       = (Inr None, (newWorld testConfig)\<lparr>requests := [ListComments 123]\<rparr>)"
proof -
  let ?c = "testComment (Some ''passer-by'')
               (''> '' @ BOT_COMMENT_MARKER @ '' what is this line?'')
               (1704067200000 + 199 * MS_PER_DAY)"
  let ?d = "testComment (Some ''test-author'') ''No idea.'' (1704067200000 + 199 * MS_PER_DAY)"
  have listing: "getComments (testEnv quotedRemote) (number (testItem (Some Proposal)))
        (newWorld testConfig)
      = (Inr ([] @ ?c\<lparr>user := Some ''passer-by''\<rparr> # [?d]),
         (newWorld testConfig)\<lparr>requests := [ListComments 123]\<rparr>)"
    by (simp add: getComments_test quotedRemote_def quietRemote_def testItem_def testComment_def)
  have quoted: "body ?c = ''> '' @ BOT_COMMENT_MARKER @ '' what is this line?''"
    by (simp add: testComment_def)
  have plain: "\<not> str_includes ''No idea.'' BOT_COMMENT_MARKER"
    by (simp add: BOT_COMMENT_MARKER_def)
  then have latest: "\<forall>x\<in>set [?d]. \<not> str_includes (body x) BOT_COMMENT_MARKER"
    by (simp add: testComment_def)
  have age: "daysBetween (1704067200000 + 199 * MS_PER_DAY) (clock quotedRemote []) = 1"
    by (simp add: daysBetween_def quotedRemote_def quietRemote_def MS_PER_DAY_def)
  then have recent: "daysBetween (created_at ?c)
      (clock (api (testEnv quotedRemote)) (requests (newWorld testConfig)))
      < pingCooldownDays (config (testEnv quotedRemote))"
    by (simp add: test_defs)
  have days: "daysBetween (updatedAt (testItem (Some Proposal))) (clock quotedRemote []) = 200"
    by (simp add: test_defs quotedRemote_def MS_PER_DAY_def daysBetween_def)
  show ?thesis
    using marker_of_any_author_suppresses [OF listing quoted latest recent] listing plain age days
    by (simp add: testItem_def testComment_def)
qed

subsection \<open>The processor: the cooldown and the pings of maintainers\<close>




subsection \<open>The detector: one entry for each issue number\<close>

lemma map_set_keys:
  "map fst (map_set m k v) = (if k \<in> set (map fst m) then map fst m else map fst m @ [k])"
  by (induction m) (auto simp: rev_image_eqI)

lemma map_set_numbered:
  "\<forall>p\<in>set m. gh_number (snd p) = fst p \<Longrightarrow>
   \<forall>p\<in>set (map_set m (gh_number gi) gi). gh_number (snd p) = fst p"
  by (induction m) (fastforce split: if_splits)+

lemma merge_keys:
  "distinct (map fst m) \<Longrightarrow>
   distinct (map fst (foldl (\<lambda>m gi. map_set m (gh_number gi) gi) m items))
   \<and> set (map fst (foldl (\<lambda>m gi. map_set m (gh_number gi) gi) m items))
       = set (map fst m) \<union> set (map gh_number items)"
proof (induction items arbitrary: m)
  case Nil
  then show ?case by simp
next
  case (Cons gi items)
  have "distinct (map fst (map_set m (gh_number gi) gi))"
    using Cons.prems by (simp add: map_set_keys)
  from Cons.IH [OF this] show ?case
    by (auto simp: map_set_keys)
qed

lemma merge_numbered:
  "\<forall>p\<in>set m. gh_number (snd p) = fst p \<Longrightarrow>
   \<forall>p\<in>set (foldl (\<lambda>m gi. map_set m (gh_number gi) gi) m items). gh_number (snd p) = fst p"
proof (induction items arbitrary: m)
  case Nil
  then show ?case by simp
next
  case (Cons gi items)
  show ?case
    using Cons.IH [OF map_set_numbered [OF Cons.prems, of gi]] by simp
qed

lemma numbers_of_values:
  "\<forall>p\<in>set m. gh_number (snd p) = fst p \<Longrightarrow>
   map number (map toSEPItem (map_values m)) = map fst m"
  by (induction m) (auto simp: map_values_def toSEPItem_def)

lemma once_in_distinct:
  "distinct (map f xs) \<Longrightarrow> x \<in> set xs \<Longrightarrow> length (filter (\<lambda>y. f y = f x) xs) = 1"
proof (induction xs)
  case Nil
  then show ?case by simp
next
  case (Cons a xs)
  show ?case
  proof (cases "f a = f x")
    case True
    then have "filter (\<lambda>y. f y = f x) xs = []"
      using Cons.prems(1) by (auto simp: filter_empty_conv image_iff)
    with True show ?thesis by simp
  next
    case False
    with Cons show ?thesis by auto
  qed
qed

text \<open>
  Claim C8. Whatever the label search and the title search return, an item found by both
  (items are told apart by their issue number) appears exactly once in the list that
  \<open>findAllSEPs\<close> returns, and every issue number of either list appears in it.
\<close>

theorem findAllSEPs_deduplicates:
  assumes labeled: "searchIssues e ''label:SEP is:open'' w = (Inr labeledItems, w1)"
    and titled: "searchIssues e ''SEP in:title is:open'' w1 = (Inr titledItems, w2)"
  shows "\<exists>found. findAllSEPs e w = (Inr found, w2)
      \<and> distinct (map number found)
      \<and> set (map number found) = set (map gh_number labeledItems) \<union> set (map gh_number titledItems)
      \<and> (\<forall>gi\<in>set labeledItems \<union> set titledItems.
            length (filter (\<lambda>s. number s = gh_number gi) found) = 1)"
proof -
  define merged where
    "merged = foldl (\<lambda>m gi. map_set m (gh_number gi) gi) [] (labeledItems @ titledItems)"
  define found where "found = map toSEPItem (map_values merged)"
  have run: "findAllSEPs e w = (Inr found, w2)"
    by (simp add: findAllSEPs_def io_bind_def io_return_def labeled titled found_def merged_def)
  have keys: "distinct (map fst merged)"
    "set (map fst merged) = set (map gh_number (labeledItems @ titledItems))"
    using merge_keys [of "[]" "labeledItems @ titledItems"] by (simp_all add: merged_def)
  have "\<forall>p\<in>set merged. gh_number (snd p) = fst p"
    unfolding merged_def by (rule merge_numbered) simp
  then have numbers: "map number found = map fst merged"
    unfolding found_def by (rule numbers_of_values)
  have d: "distinct (map number found)" and s: "set (map number found)
      = set (map gh_number labeledItems) \<union> set (map gh_number titledItems)"
    using keys by (simp_all add: numbers)
  have "length (filter (\<lambda>s. number s = gh_number gi) found) = 1"
    if "gi \<in> set labeledItems \<union> set titledItems" for gi
  proof -
    from that s have "gh_number gi \<in> set (map number found)" by auto
    then obtain x where x: "x \<in> set found" "number x = gh_number gi" by auto
    from once_in_distinct [OF d x(1)] x(2) show ?thesis by simp
  qed
  with run d s show ?thesis by blast
qed

theorem findAllSEPs_deduplicates_witness:
  "searchIssues (testEnv searchRemote) ''label:SEP is:open'' (newWorld testConfig)
     = (Inr [testIssue 1 ''Sessions'', testIssue 2 ''SEP-2: Tasks''],
        (newWorld testConfig)
          \<lparr>requests := [SearchIssuesAndPullRequests ''repo:test-owner/test-repo label:SEP is:open'']\<rparr>)
   \<and> searchIssues (testEnv searchRemote) ''SEP in:title is:open''
        ((newWorld testConfig)
          \<lparr>requests := [SearchIssuesAndPullRequests ''repo:test-owner/test-repo label:SEP is:open'']\<rparr>)
     = (Inr [testIssue 2 ''SEP-2: Tasks'', testIssue 3 ''SEP-3: Roots''],
        (newWorld testConfig)
          \<lparr>requests := [SearchIssuesAndPullRequests ''repo:test-owner/test-repo label:SEP is:open'',
                        SearchIssuesAndPullRequests ''repo:test-owner/test-repo SEP in:title is:open'']\<rparr>)
   \<and> (\<exists>found. fst (findAllSEPs (testEnv searchRemote) (newWorld testConfig)) = Inr found
         \<and> distinct (map number found)
         \<and> set (map number found) = {1, 2, 3}
         \<and> length (filter (\<lambda>s. number s = 2) found) = 1)"
proof -
  let ?w1 = "(newWorld testConfig)
          \<lparr>requests := [SearchIssuesAndPullRequests ''repo:test-owner/test-repo label:SEP is:open'']\<rparr>"
  let ?w2 = "(newWorld testConfig)
          \<lparr>requests := [SearchIssuesAndPullRequests ''repo:test-owner/test-repo label:SEP is:open'',
                        SearchIssuesAndPullRequests ''repo:test-owner/test-repo SEP in:title is:open'']\<rparr>"
  have labeled: "searchIssues (testEnv searchRemote) ''label:SEP is:open'' (newWorld testConfig)
     = (Inr [testIssue 1 ''Sessions'', testIssue 2 ''SEP-2: Tasks''], ?w1)"
    by (simp add: searchIssues_def ensureInitialized_def io_defs test_defs searchRemote_def)
  have titled: "searchIssues (testEnv searchRemote) ''SEP in:title is:open'' ?w1
     = (Inr [testIssue 2 ''SEP-2: Tasks'', testIssue 3 ''SEP-3: Roots''], ?w2)"
    by (simp add: searchIssues_def ensureInitialized_def io_defs test_defs searchRemote_def)
  from findAllSEPs_deduplicates [OF labeled titled]
  obtain found where found:
    "findAllSEPs (testEnv searchRemote) (newWorld testConfig) = (Inr found, ?w2)"
    "distinct (map number found)"
    "set (map number found) = set (map gh_number [testIssue 1 ''Sessions'', testIssue 2 ''SEP-2: Tasks''])
       \<union> set (map gh_number [testIssue 2 ''SEP-2: Tasks'', testIssue 3 ''SEP-3: Roots''])"
    "length (filter (\<lambda>s. number s = gh_number (testIssue 2 ''SEP-2: Tasks'')) found) = 1"
    by auto
  have "set (map number found) = {1, 2, 3}"
    unfolding found(3) by (auto simp: testIssue_def)
  moreover have "length (filter (\<lambda>s. number s = 2) found) = 1"
    using found(4) by (simp add: testIssue_def)
  ultimately show ?thesis
    using labeled titled found(1,2) by simp
qed

subsection \<open>The mutating requests of a call\<close>

lemma emitsI:
  assumes "\<And>w x w'. m w = (Inr x, w') \<Longrightarrow> mutationsOf w' = mutationsOf w @ rs"
    and "\<And>w err w'. m w = (Inl err, w') \<Longrightarrow>
           \<exists>new. mutationsOf w' = mutationsOf w @ new \<and> prefix new rs"
  shows "emits rs m"
  unfolding emits_def using assms by (auto split: prod.splits sum.splits)

lemma emits_returned:
  "emits rs m \<Longrightarrow> m w = (Inr x, w') \<Longrightarrow> mutationsOf w' = mutationsOf w @ rs"
  unfolding emits_def by (drule spec [of _ w]) simp

lemma emits_thrown:
  "emits rs m \<Longrightarrow> m w = (Inl err, w') \<Longrightarrow>
     \<exists>new. mutationsOf w' = mutationsOf w @ new \<and> prefix new rs"
  unfolding emits_def by (drule spec [of _ w]) simp

lemma emits_return [simp]: "emits [] (io_return x)"
  by (rule emitsI) (simp_all add: io_return_def)

lemma emits_throw [simp]: "emits rs (io_throw err)"
  by (rule emitsI) (simp_all add: io_throw_def)

lemma emits_bind:
  assumes m: "emits rs m" and f: "\<And>x. emits ss (f x)"
  shows "emits (rs @ ss) (io_bind m f)"
proof (rule emitsI)
  fix w y w'
  assume run: "io_bind m f w = (Inr y, w')"
  then obtain x w1 where 1: "m w = (Inr x, w1)" and 2: "f x w1 = (Inr y, w')"
    by (auto simp: io_bind_def split: prod.splits sum.splits)
  from emits_returned [OF m 1] emits_returned [OF f 2]
  show "mutationsOf w' = mutationsOf w @ rs @ ss" by simp
next
  fix w err w'
  assume run: "io_bind m f w = (Inl err, w')"
  show "\<exists>new. mutationsOf w' = mutationsOf w @ new \<and> prefix new (rs @ ss)"
  proof (cases "m w")
    case (Pair r w1)
    show ?thesis
    proof (cases r)
      case (Inl err1)
      with Pair run have "m w = (Inl err, w')" by (simp add: io_bind_def)
      from emits_thrown [OF m this] show ?thesis by (auto intro: prefix_prefix)
    next
      case (Inr x)
      with Pair run have 1: "m w = (Inr x, w1)" and 2: "f x w1 = (Inl err, w')"
        by (simp_all add: io_bind_def)
      from emits_returned [OF m 1] emits_thrown [OF f 2] show ?thesis by auto
    qed
  qed
qed

lemma emits_bind_quiet:
  "emits [] m \<Longrightarrow> (\<And>x. emits rs (f x)) \<Longrightarrow> emits rs (io_bind m f)"
  using emits_bind [of "[]" m rs f] by simp

lemma emits_catch_quiet:
  assumes m: "emits [] m" and h: "\<And>err. emits [] (h err)"
  shows "emits [] (io_catch m h)"
proof (rule emitsI)
  fix w y w'
  assume run: "io_catch m h w = (Inr y, w')"
  show "mutationsOf w' = mutationsOf w @ []"
  proof (cases "m w")
    case (Pair r w1)
    show ?thesis
    proof (cases r)
      case (Inl err1)
      with Pair run have 1: "m w = (Inl err1, w1)" and 2: "h err1 w1 = (Inr y, w')"
        by (simp_all add: io_catch_def)
      from emits_thrown [OF m 1] emits_returned [OF h 2] show ?thesis by simp
    next
      case (Inr x)
      with Pair run have "m w = (Inr x, w')" by (simp add: io_catch_def)
      from emits_returned [OF m this] show ?thesis .
    qed
  qed
next
  fix w err w'
  assume run: "io_catch m h w = (Inl err, w')"
  then obtain err1 w1 where 1: "m w = (Inl err1, w1)" and 2: "h err1 w1 = (Inl err, w')"
    by (auto simp: io_catch_def split: prod.splits sum.splits)
  from emits_thrown [OF m 1] emits_thrown [OF h 2]
  show "\<exists>new. mutationsOf w' = mutationsOf w @ new \<and> prefix new []" by simp
qed

lemma emits_send: "emits (filter isMutation [r]) (send r endpoint)"
  by (rule emitsI) (auto simp: send_def mutationsOf_def)

lemma emits_ensureInitialized: "emits [] (ensureInitialized e)"
  by (rule emitsI)
     (auto simp: ensureInitialized_def io_defs mutationsOf_def split: if_splits sum.splits)

lemma emits_client:
  "emits (filter isMutation [r]) (io_bind (ensureInitialized e) (\<lambda>_. send r endpoint))"
  by (rule emits_bind_quiet [OF emits_ensureInitialized emits_send])

lemma emits_addLabels: "emits [AddLabels n ls] (addLabels e n ls)"
  using emits_client [of "AddLabels n ls"] by (simp add: addLabels_def)

lemma emits_addComment: "emits [CreateComment n b] (addComment e n b)"
  using emits_client [of "CreateComment n b"] by (simp add: addComment_def)

lemma emits_closeIssue: "emits [UpdateClosed n] (closeIssue e n)"
  using emits_client [of "UpdateClosed n"] by (simp add: closeIssue_def)

lemma emits_getTeamMembers: "emits [] (getTeamMembers e org team)"
  using emits_client [of "ListMembersInOrg org team"] by (simp add: getTeamMembers_def)

lemma emits_getComments: "emits [] (getComments e n)"
  using emits_client [of "ListComments n"] by (simp add: getComments_def)

lemma emits_getEvents: "emits [] (getEvents e n)"
  using emits_client [of "ListEvents n"] by (simp add: getEvents_def)

lemma emits_removeLabel: "emits [RemoveLabel n l] (removeLabel e n l)"
proof -
  have "emits [RemoveLabel n l]
     (io_catch (send (RemoveLabel n l) (\<lambda>h. issues_removeLabel (api e) h n l))
        (\<lambda>err. if isHttpError err 404 then io_return () else io_throw err))"
    by (rule emitsI)
       (auto simp: io_defs mutationsOf_def split: if_splits sum.splits)
  then show ?thesis
    unfolding removeLabel_def by (intro emits_bind_quiet emits_ensureInitialized)
qed

subsection \<open>The ping handler: marking dormant\<close>

lemma markDormant_rejected:
  assumes "state it = Some s" and "Dormant \<notin> set (STATE_TRANSITIONS s)"
  shows "\<exists>r. markDormant e it days close dry w = (Inr r, w) \<and> \<not> success r"
  using assms by (simp add: markDormant_def Let_def io_return_def)

lemma markDormant_relabels:
  assumes s: "state it = Some s" and legal: "Dormant \<in> set (STATE_TRANSITIONS s)"
    and other: "s \<noteq> Dormant"
  shows "\<exists>r w' new. markDormant e it days close False w = (Inr r, w')
      \<and> mutationsOf w' = mutationsOf w @ new
      \<and> prefix new
          ([RemoveLabel (number it) (stateLabel s), AddLabels (number it) [''dormant''],
            CreateComment (number it) (createDormantComment it days)]
           @ (if close then [UpdateClosed (number it)] else []))
      \<and> (success r \<longrightarrow>
           new = [RemoveLabel (number it) (stateLabel s), AddLabels (number it) [''dormant''],
                  CreateComment (number it) (createDormantComment it days)]
                 @ (if close then [UpdateClosed (number it)] else []))"
proof -
  let ?full = "[RemoveLabel (number it) (stateLabel s)] @ [AddLabels (number it) [''dormant'']]
       @ [CreateComment (number it) (createDormantComment it days)]
       @ (if close then [UpdateClosed (number it)] else []) @ []"
  define act where "act = createAction MarkDormant it False
      (''Marking dormant after '' @ showInt days @ '' days of inactivity'') None"
  define steps where "steps =
     io_bind (removeLabel e (number it) (stateLabel s))
       (\<lambda>_. io_bind (addLabels e (number it) [''dormant''])
       (\<lambda>_. io_bind (addComment e (number it) (createDormantComment it days))
       (\<lambda>commentLink. io_bind (if close then closeIssue e (number it) else io_return ())
       (\<lambda>_. io_return \<lparr>action = act, success = True, error = None,
                          commentUrl = Some commentLink\<rparr>))))"
  have closing: "emits (if close then [UpdateClosed (number it)] else [])
      (if close then closeIssue e (number it) else io_return ())"
    by (simp add: emits_closeIssue)
  have steps: "emits ?full steps"
    unfolding steps_def
    by (intro emits_bind emits_removeLabel emits_addLabels emits_addComment closing
          emits_return)
  have run: "markDormant e it days close False w =
      (case steps w of
         (Inl err, w') \<Rightarrow> (Inr \<lparr>action = act, success = False,
                                  error = Some (getErrorMessage err), commentUrl = None\<rparr>, w')
       | (Inr r, w') \<Rightarrow> (Inr r, w'))"
    using s legal other
    by (simp add: markDormant_def Let_def io_catch_def io_return_def steps_def act_def
          split: prod.splits sum.splits)
  show ?thesis
  proof (cases "steps w")
    case (Pair out w')
    show ?thesis
    proof (cases out)
      case (Inl err)
      with Pair emits_thrown [OF steps, of w err w'] run show ?thesis by auto
    next
      case (Inr r)
      with Pair emits_returned [OF steps, of w r w'] run show ?thesis by auto
    qed
  qed
qed

text \<open>
  A remote side that accepts the requests of a dormant marking: the marking runs to its
  end, in the order remove, add, comment, close, and reports success with the link of the
  comment. A missing label (status 404) counts as removed.
\<close>

lemma ensureInitialized_ready:
  "initialized w \<Longrightarrow> ensureInitialized e w = (Inr (), w)"
  by (simp add: ensureInitialized_def io_return_def)

lemma ensureInitialized_done:
  "ensureInitialized e w = (Inr (), w0) \<Longrightarrow> initialized w0"
  by (auto simp: ensureInitialized_def io_defs split: if_splits sum.splits)

lemma removeLabel_accepted:
  assumes "ensureInitialized e w = (Inr (), w0)"
    and "issues_removeLabel (api e) (requests w0) n l = Inr ()
         \<or> (\<exists>err. issues_removeLabel (api e) (requests w0) n l = Inl err \<and> isHttpError err 404)"
  shows "removeLabel e n l w = (Inr (), w0\<lparr>requests := requests w0 @ [RemoveLabel n l]\<rparr>)"
  using assms by (auto simp: removeLabel_def io_defs)

lemma addLabels_accepted:
  assumes "initialized w" and "issues_addLabels (api e) (requests w) n ls = Inr ()"
  shows "addLabels e n ls w = (Inr (), w\<lparr>requests := requests w @ [AddLabels n ls]\<rparr>)"
  using assms by (simp add: addLabels_def ensureInitialized_ready io_defs)

lemma addComment_accepted:
  assumes "initialized w" and "issues_createComment (api e) (requests w) n text = Inr link"
  shows "addComment e n text w = (Inr link, w\<lparr>requests := requests w @ [CreateComment n text]\<rparr>)"
  using assms by (simp add: addComment_def ensureInitialized_ready io_defs)

lemma closeIssue_accepted:
  assumes "initialized w" and "issues_update (api e) (requests w) n = Inr ()"
  shows "closeIssue e n w = (Inr (), w\<lparr>requests := requests w @ [UpdateClosed n]\<rparr>)"
  using assms by (simp add: closeIssue_def ensureInitialized_ready io_defs)

lemma markDormant_accepted:
  assumes s: "state it = Some s" and legal: "Dormant \<in> set (STATE_TRANSITIONS s)"
    and other: "s \<noteq> Dormant"
    and ready: "ensureInitialized e w = (Inr (), w0)"
    and removed: "issues_removeLabel (api e) (requests w0) (number it) (stateLabel s) = Inr ()
         \<or> (\<exists>err. issues_removeLabel (api e) (requests w0) (number it) (stateLabel s) = Inl err
                \<and> isHttpError err 404)"
    and added: "issues_addLabels (api e)
                  (requests w0 @ [RemoveLabel (number it) (stateLabel s)])
                  (number it) [''dormant''] = Inr ()"
    and commented: "issues_createComment (api e)
                  (requests w0 @ [RemoveLabel (number it) (stateLabel s),
                                  AddLabels (number it) [''dormant'']])
                  (number it) (createDormantComment it days) = Inr link"
    and closed: "close \<longrightarrow> issues_update (api e)
                  (requests w0 @ [RemoveLabel (number it) (stateLabel s),
                                  AddLabels (number it) [''dormant''],
                                  CreateComment (number it) (createDormantComment it days)])
                  (number it) = Inr ()"
  shows "\<exists>r. markDormant e it days close False w
           = (Inr r,
              w0\<lparr>requests := requests w0
                   @ [RemoveLabel (number it) (stateLabel s), AddLabels (number it) [''dormant''],
                      CreateComment (number it) (createDormantComment it days)]
                   @ (if close then [UpdateClosed (number it)] else [])\<rparr>)
         \<and> success r \<and> error r = None \<and> commentUrl r = Some link"
proof -
  let ?w1 = "w0\<lparr>requests := requests w0 @ [RemoveLabel (number it) (stateLabel s)]\<rparr>"
  let ?w2 = "?w1\<lparr>requests := requests ?w1 @ [AddLabels (number it) [''dormant'']]\<rparr>"
  let ?w3 = "?w2\<lparr>requests := requests ?w2
                @ [CreateComment (number it) (createDormantComment it days)]\<rparr>"
  have init: "initialized w0"
    using ready by (rule ensureInitialized_done)
  have 1: "removeLabel e (number it) (stateLabel s) w = (Inr (), ?w1)"
    using ready removed by (rule removeLabel_accepted)
  have 2: "addLabels e (number it) [''dormant''] ?w1 = (Inr (), ?w2)"
    using init added by (intro addLabels_accepted) simp_all
  have 3: "addComment e (number it) (createDormantComment it days) ?w2 = (Inr link, ?w3)"
    using init commented by (intro addComment_accepted) simp_all
  have 4: "closeIssue e (number it) ?w3
             = (Inr (), ?w3\<lparr>requests := requests ?w3 @ [UpdateClosed (number it)]\<rparr>)"
    if close
    using init closed that by (intro closeIssue_accepted) simp_all
  show ?thesis
  proof (cases close)
    case True
    with s legal other 1 2 3 4 show ?thesis
      by (simp add: markDormant_def Let_def io_defs)
  next
    case False
    with s legal other 1 2 3 show ?thesis
      by (simp add: markDormant_def Let_def io_defs)
  qed
qed

text \<open>
  Claim C2. A dormant marking that is not a dry run (\<open>executePing\<close> on an analysis with
  \<open>shouldMarkDormant\<close>): for an item in state \<open>Final\<close> it returns \<open>success = False\<close>
  and makes no request at all; for an item in state \<open>Proposal\<close> or \<open>Draft\<close> the first
  mutating request is the removal of the current state label and the \<^verbatim>\<open>dormant\<close> label is
  added only after it: the mutating requests made are an initial part of remove, add,
  comment, close, and all of them when the result reports success. And the marking does
  succeed from these two states: when the client is ready (\<open>v\<close> is the state
  \<^verbatim>\<open>ensureInitialized\<close> leaves) and the remote side accepts the removal (or answers it
  with 404), the added label, the comment and, if the item is to be closed, the closing,
  the call makes exactly these requests, in this order, and returns \<open>success = True\<close>
  with the link of the comment.
\<close>

theorem markDormant_validates_then_relabels:
  assumes dormant: "shouldMarkDormant a"
  shows "(state (item a) = Some Final \<longrightarrow>
           (\<exists>r. executePing e a False w = (Inr r, w) \<and> \<not> success r))
    \<and> (state (item a) = Some s \<and> (s = Proposal \<or> s = Draft) \<longrightarrow>
         (\<exists>r w' new. executePing e a False w = (Inr r, w')
            \<and> mutationsOf w' = mutationsOf w @ new
            \<and> prefix new
                ([RemoveLabel (number (item a)) (stateLabel s),
                  AddLabels (number (item a)) [''dormant''],
                  CreateComment (number (item a))
                    (createDormantComment (item a) (daysSinceActivity a))]
                 @ (if shouldClose a then [UpdateClosed (number (item a))] else []))
            \<and> (success r \<longrightarrow>
                 new = [RemoveLabel (number (item a)) (stateLabel s),
                        AddLabels (number (item a)) [''dormant''],
                        CreateComment (number (item a))
                          (createDormantComment (item a) (daysSinceActivity a))]
                       @ (if shouldClose a then [UpdateClosed (number (item a))] else []))))
    \<and> (state (item a) = Some s \<and> (s = Proposal \<or> s = Draft)
        \<and> ensureInitialized e w = (Inr (), v)
        \<and> (issues_removeLabel (api e) (requests v) (number (item a)) (stateLabel s) = Inr ()
           \<or> (\<exists>err. issues_removeLabel (api e) (requests v) (number (item a)) (stateLabel s)
                       = Inl err
                  \<and> isHttpError err 404))
        \<and> issues_addLabels (api e)
             (requests v @ [RemoveLabel (number (item a)) (stateLabel s)])
             (number (item a)) [''dormant''] = Inr ()
        \<and> issues_createComment (api e)
             (requests v @ [RemoveLabel (number (item a)) (stateLabel s),
                            AddLabels (number (item a)) [''dormant'']])
             (number (item a)) (createDormantComment (item a) (daysSinceActivity a)) = Inr link
        \<and> (shouldClose a \<longrightarrow>
             issues_update (api e)
               (requests v @ [RemoveLabel (number (item a)) (stateLabel s),
                              AddLabels (number (item a)) [''dormant''],
                              CreateComment (number (item a))
                                (createDormantComment (item a) (daysSinceActivity a))])
               (number (item a)) = Inr ()) \<longrightarrow>
         (\<exists>r. executePing e a False w
                 = (Inr r,
                    v\<lparr>requests := requests v
                        @ [RemoveLabel (number (item a)) (stateLabel s),
                           AddLabels (number (item a)) [''dormant''],
                           CreateComment (number (item a))
                             (createDormantComment (item a) (daysSinceActivity a))]
                        @ (if shouldClose a then [UpdateClosed (number (item a))] else [])\<rparr>)
             \<and> success r \<and> error r = None \<and> commentUrl r = Some link))"
proof (intro conjI impI)
  assume "state (item a) = Some Final"
  then show "\<exists>r. executePing e a False w = (Inr r, w) \<and> \<not> success r"
    using dormant markDormant_rejected [of "item a" Final e "daysSinceActivity a"
        "shouldClose a" False w]
    by (simp add: executePing_def)
next
  assume "state (item a) = Some s \<and> (s = Proposal \<or> s = Draft)"
  then have "state (item a) = Some s" "Dormant \<in> set (STATE_TRANSITIONS s)" "s \<noteq> Dormant"
    by auto
  from markDormant_relabels [OF this, of e "daysSinceActivity a" "shouldClose a" w]
  show "\<exists>r w' new. executePing e a False w = (Inr r, w')
            \<and> mutationsOf w' = mutationsOf w @ new
            \<and> prefix new
                ([RemoveLabel (number (item a)) (stateLabel s),
                  AddLabels (number (item a)) [''dormant''],
                  CreateComment (number (item a))
                    (createDormantComment (item a) (daysSinceActivity a))]
                 @ (if shouldClose a then [UpdateClosed (number (item a))] else []))
            \<and> (success r \<longrightarrow>
                 new = [RemoveLabel (number (item a)) (stateLabel s),
                        AddLabels (number (item a)) [''dormant''],
                        CreateComment (number (item a))
                          (createDormantComment (item a) (daysSinceActivity a))]
                       @ (if shouldClose a then [UpdateClosed (number (item a))] else []))"
    using dormant by (simp add: executePing_def)
next
  let ?n = "number (item a)" and ?days = "daysSinceActivity a"
  assume accepted: "state (item a) = Some s \<and> (s = Proposal \<or> s = Draft)
        \<and> ensureInitialized e w = (Inr (), v)
        \<and> (issues_removeLabel (api e) (requests v) ?n (stateLabel s) = Inr ()
           \<or> (\<exists>err. issues_removeLabel (api e) (requests v) ?n (stateLabel s) = Inl err
                  \<and> isHttpError err 404))
        \<and> issues_addLabels (api e) (requests v @ [RemoveLabel ?n (stateLabel s)])
             ?n [''dormant''] = Inr ()
        \<and> issues_createComment (api e)
             (requests v @ [RemoveLabel ?n (stateLabel s), AddLabels ?n [''dormant'']])
             ?n (createDormantComment (item a) ?days) = Inr link
        \<and> (shouldClose a \<longrightarrow>
             issues_update (api e)
               (requests v @ [RemoveLabel ?n (stateLabel s), AddLabels ?n [''dormant''],
                              CreateComment ?n (createDormantComment (item a) ?days)])
               ?n = Inr ())"
  then have s: "state (item a) = Some s" "Dormant \<in> set (STATE_TRANSITIONS s)" "s \<noteq> Dormant"
    by auto
  from accepted have ready: "ensureInitialized e w = (Inr (), v)"
    and removed: "issues_removeLabel (api e) (requests v) ?n (stateLabel s) = Inr ()
           \<or> (\<exists>err. issues_removeLabel (api e) (requests v) ?n (stateLabel s) = Inl err
                  \<and> isHttpError err 404)"
    and added: "issues_addLabels (api e) (requests v @ [RemoveLabel ?n (stateLabel s)])
             ?n [''dormant''] = Inr ()"
    and commented: "issues_createComment (api e)
             (requests v @ [RemoveLabel ?n (stateLabel s), AddLabels ?n [''dormant'']])
             ?n (createDormantComment (item a) ?days) = Inr link"
    and closed: "shouldClose a \<longrightarrow>
             issues_update (api e)
               (requests v @ [RemoveLabel ?n (stateLabel s), AddLabels ?n [''dormant''],
                              CreateComment ?n (createDormantComment (item a) ?days)])
               ?n = Inr ()"
    by blast+
  from markDormant_accepted [OF s ready removed added commented closed]
  show "\<exists>r. executePing e a False w
                 = (Inr r,
                    v\<lparr>requests := requests v
                        @ [RemoveLabel ?n (stateLabel s), AddLabels ?n [''dormant''],
                           CreateComment ?n (createDormantComment (item a) ?days)]
                        @ (if shouldClose a then [UpdateClosed ?n] else [])\<rparr>)
             \<and> success r \<and> error r = None \<and> commentUrl r = Some link"
    using dormant by (simp add: executePing_def)
qed

text \<open>
  Four runs: the test item in state \<open>Final\<close>; as a proposal and as a
  draft against a remote side that accepts everything (the draft against one that does
  not know the label, and not to be closed); as a draft against a remote side that is
  down, where the removal is the only mutating request made and the result is a failure.
\<close>

theorem markDormant_validates_then_relabels_witness:
  "shouldMarkDormant (dormantAnalysis (Some Final))
   \<and> (\<exists>r. executePing (testEnv quietRemote) (dormantAnalysis (Some Final)) False
              (newWorld testConfig) = (Inr r, newWorld testConfig) \<and> \<not> success r)
   \<and> (\<exists>r. executePing (testEnv quietRemote) (dormantAnalysis (Some Proposal)) False
              (newWorld testConfig)
            = (Inr r,
               (newWorld testConfig)
                 \<lparr>requests :=
                    [RemoveLabel 123 ''proposal'', AddLabels 123 [''dormant''],
                     CreateComment 123 (createDormantComment (testItem (Some Proposal)) 200),
                     UpdateClosed 123]\<rparr>)
          \<and> success r
          \<and> commentUrl r = Some ''https://github.com/test/123#issuecomment-1'')
   \<and> (\<exists>r. executePing (testEnv notFoundRemote)
              ((dormantAnalysis (Some Draft))\<lparr>shouldClose := False\<rparr>) False
              (newWorld testConfig)
            = (Inr r,
               (newWorld testConfig)
                 \<lparr>requests :=
                    [RemoveLabel 123 ''draft'', AddLabels 123 [''dormant''],
                     CreateComment 123 (createDormantComment (testItem (Some Draft)) 200)]\<rparr>)
          \<and> success r)
   \<and> (\<exists>r w'. executePing (testEnv brokenRemote) (dormantAnalysis (Some Draft)) False
              (newWorld testConfig) = (Inr r, w')
          \<and> \<not> success r \<and> mutationsOf w' = [RemoveLabel 123 ''draft''])"
proof -
  let ?w = "newWorld testConfig"
  let ?link = "''https://github.com/test/123#issuecomment-1''"
  have d: "shouldMarkDormant (dormantAnalysis s)" for s
    by (simp add: dormantAnalysis_def)
  have d': "shouldMarkDormant ((dormantAnalysis (Some Draft))\<lparr>shouldClose := False\<rparr>)"
    by (simp add: dormantAnalysis_def)
  have ready: "ensureInitialized (testEnv r) ?w = (Inr (), ?w)" for r
    by (simp add: ensureInitialized_def io_defs test_defs)
  have final: "\<exists>r. executePing (testEnv quietRemote) (dormantAnalysis (Some Final)) False ?w
                 = (Inr r, ?w) \<and> \<not> success r"
    using markDormant_validates_then_relabels
      [OF d, where s1 = "Some Final" and e = "testEnv quietRemote" and w = ?w]
    by (simp add: dormantAnalysis_def testItem_def)
  have proposal: "\<exists>r. executePing (testEnv quietRemote) (dormantAnalysis (Some Proposal)) False ?w
            = (Inr r,
               ?w\<lparr>requests :=
                    [RemoveLabel 123 ''proposal'', AddLabels 123 [''dormant''],
                     CreateComment 123 (createDormantComment (testItem (Some Proposal)) 200),
                     UpdateClosed 123]\<rparr>)
          \<and> success r \<and> commentUrl r = Some ?link"
    using markDormant_validates_then_relabels
      [OF d, where s1 = "Some Proposal" and e = "testEnv quietRemote" and w = ?w
         and s = Proposal and v = ?w and link = ?link]
      ready [of quietRemote]
    by (auto simp: dormantAnalysis_def testItem_def testEnv_def quietRemote_def newWorld_def)
  have draft: "\<exists>r. executePing (testEnv notFoundRemote)
              ((dormantAnalysis (Some Draft))\<lparr>shouldClose := False\<rparr>) False ?w
            = (Inr r,
               ?w\<lparr>requests :=
                    [RemoveLabel 123 ''draft'', AddLabels 123 [''dormant''],
                     CreateComment 123 (createDormantComment (testItem (Some Draft)) 200)]\<rparr>)
          \<and> success r"
    using markDormant_validates_then_relabels
      [OF d', where e = "testEnv notFoundRemote" and w = ?w
         and s = Draft and v = ?w and link = ?link]
      ready [of notFoundRemote]
    by (auto simp: dormantAnalysis_def testItem_def testEnv_def notFoundRemote_def
          quietRemote_def newWorld_def notFound_def)
  have fails: "\<not> success r \<and> mutationsOf w' = [RemoveLabel 123 ''draft'']"
    if "executePing (testEnv brokenRemote) (dormantAnalysis (Some Draft)) False ?w = (Inr r, w')"
    for r w'
    using that
    by (auto simp: executePing_def markDormant_def removeLabel_def
          ensureInitialized_def io_defs Let_def mutationsOf_def
          dormantAnalysis_def test_defs brokenRemote_def)
  have broken: "\<exists>r w'. executePing (testEnv brokenRemote) (dormantAnalysis (Some Draft)) False ?w
              = (Inr r, w') \<and> \<not> success r \<and> mutationsOf w' = [RemoveLabel 123 ''draft'']"
    using markDormant_validates_then_relabels
      [OF d, where s1 = "Some Draft" and e = "testEnv brokenRemote" and w = ?w and s = Draft]
      fails
    by (simp add: dormantAnalysis_def testItem_def) blast
  from d final proposal draft broken show ?thesis by blast
qed

subsection \<open>The resolver makes no mutating request and never throws\<close>

lemma emits_loadTeams: "emits [] (loadTeams e teams members)"
proof (induction teams arbitrary: members)
  case Nil
  show ?case by simp
next
  case (Cons team teams)
  show ?case
    unfolding loadTeams.simps
    by (intro emits_bind_quiet emits_catch_quiet emits_getTeamMembers emits_return Cons.IH)
qed

lemma emits_ensureSponsorsLoaded: "emits [] (ensureSponsorsLoaded e)"
proof -
  let ?load = "io_catch
       (io_bind (loadTeams e SPONSOR_TEAMS [])
          (\<lambda>allMembers w1.
             if allMembers \<noteq> [] then
               (Inr allMembers, w1\<lparr>maintainerSet := Some allMembers\<rparr>)
             else io_throw (JSError ''No team members loaded from any team'' None) w1))
       (\<lambda>err w2. (Inr FALLBACK_SPONSORS, w2\<lparr>maintainerSet := Some FALLBACK_SPONSORS\<rparr>))"
  have keep: "emits [] (\<lambda>w1. if allMembers \<noteq> [] then
               (Inr allMembers, w1\<lparr>maintainerSet := Some allMembers\<rparr>)
             else io_throw (JSError ''No team members loaded from any team'' None) w1)"
    for allMembers :: "string list"
    by (rule emitsI) (auto simp: mutationsOf_def io_throw_def split: if_splits)
  have fallback: "emits [] (\<lambda>w2. (Inr FALLBACK_SPONSORS,
        w2\<lparr>maintainerSet := Some FALLBACK_SPONSORS\<rparr>))"
    by (rule emitsI) (auto simp: mutationsOf_def)
  have load: "emits [] ?load"
    by (intro emits_catch_quiet emits_bind_quiet emits_loadTeams keep fallback)
  show ?thesis
  proof (rule emitsI)
    fix w x w'
    assume run: "ensureSponsorsLoaded e w = (Inr x, w')"
    show "mutationsOf w' = mutationsOf w @ []"
    proof (cases "maintainerSet w = None \<and> \<not> loadAttempted w")
      case True
      with run have "?load (w\<lparr>loadAttempted := True\<rparr>) = (Inr x, w')"
        by (simp add: ensureSponsorsLoaded_def)
      from emits_returned [OF load this] show ?thesis by (simp add: mutationsOf_def)
    next
      case False
      with run have "w' = w"
        by (auto simp: ensureSponsorsLoaded_def split: option.splits if_splits)
      then show ?thesis by simp
    qed
  next
    fix w err w'
    assume run: "ensureSponsorsLoaded e w = (Inl err, w')"
    show "\<exists>new. mutationsOf w' = mutationsOf w @ new \<and> prefix new []"
    proof (cases "maintainerSet w = None \<and> \<not> loadAttempted w")
      case True
      with run have "?load (w\<lparr>loadAttempted := True\<rparr>) = (Inl err, w')"
        by (simp add: ensureSponsorsLoaded_def)
      from emits_thrown [OF load this] show ?thesis by (simp add: mutationsOf_def)
    next
      case False
      with run have "w' = w"
        by (auto simp: ensureSponsorsLoaded_def split: option.splits if_splits)
      then show ?thesis by simp
    qed
  qed
qed

lemma emits_canSponsor: "emits [] (canSponsor e username)"
  unfolding canSponsor_def
  by (intro emits_bind_quiet emits_ensureSponsorsLoaded emits_return)

lemma emits_getSponsor: "emits [] (getSponsor e logins)"
proof (induction logins)
  case Nil
  show ?case by simp
next
  case (Cons login logins)
  have "emits [] (if ok then io_return (Some login) else getSponsor e logins)" for ok
    by (simp add: Cons.IH)
  then show ?case
    unfolding getSponsor.simps by (intro emits_bind_quiet emits_canSponsor)
qed

text \<open>Looking for a sponsor never throws: the resolver falls back to its own list.\<close>

lemma ensureSponsorsLoaded_returns: "\<exists>sponsors w'. ensureSponsorsLoaded e w = (Inr sponsors, w')"
  by (auto simp: ensureSponsorsLoaded_def io_catch_def io_bind_def io_throw_def
        split: option.splits prod.splits sum.splits)

lemma canSponsor_returns: "\<exists>ok w'. canSponsor e username w = (Inr ok, w')"
  using ensureSponsorsLoaded_returns [of e w]
  by (auto simp: canSponsor_def io_bind_def io_return_def)

lemma getSponsor_returns: "\<exists>found w'. getSponsor e logins w = (Inr found, w')"
proof (induction logins arbitrary: w)
  case Nil
  show ?case by (simp add: io_return_def)
next
  case (Cons login logins)
  from canSponsor_returns [of e login w] obtain ok w1
    where 1: "canSponsor e login w = (Inr ok, w1)" by blast
  from Cons.IH [of w1] 1 show ?case
    by (auto simp: io_bind_def io_return_def)
qed

subsection \<open>Dry runs\<close>

lemma executeTransition_dry:
  "executeTransition e it to sponsor True w =
     (Inr \<lparr>action = \<lparr>actionType = Transition, actionItem = it, targetUser = Some sponsor,
                      fromState = state it, toState = Some to,
                      actionReason = ''Transitioning from '' @ stateOrNone (state it)
                        @ '' to '' @ stateLabel to,
                      dryRun = True\<rparr>,
            success = isValidTransition (state it) to,
            error = (if isValidTransition (state it) to then None
                     else Some (snd (validateTransition (state it) to))),
            commentUrl = None\<rparr>, w)"
  by (cases "state it") (simp_all add: executeTransition_def validateTransition_def Let_def io_return_def)

lemma markDormant_dry:
  "\<exists>r. markDormant e it days close True w = (Inr r, w)
      \<and> success r = isValidTransition (state it) Dormant"
  by (cases "state it") (simp_all add: markDormant_def Let_def io_return_def)

lemma pingAuthor_dry: "\<exists>r. pingAuthor e it days True w = (Inr r, w) \<and> success r"
  by (simp add: pingAuthor_def Let_def io_return_def)

lemma postNeedsSponsor_dry: "\<exists>r. postNeedsSponsor e it days True w = (Inr r, w) \<and> success r"
  by (simp add: postNeedsSponsor_def Let_def io_return_def)

lemma pingMaintainerDirectly_dry:
  "\<exists>r. pingMaintainerDirectly e it maintainer days True w = (Inr r, w) \<and> success r"
  by (simp add: pingMaintainerDirectly_def Let_def io_return_def)

lemma pingSponsor_dry:
  "\<exists>r. pingSponsor e it days True w = (Inr r, snd (getSponsor e (assignees it) w)) \<and> success r"
proof -
  from getSponsor_returns [of e "assignees it" w] obtain found w1
    where 1: "getSponsor e (assignees it) w = (Inr found, w1)" by blast
  show ?thesis
    using 1 postNeedsSponsor_dry [of e it days w1]
    by (auto simp: pingSponsor_def io_bind_def Let_def io_return_def)
qed

lemma pingMaintainer_dry:
  "\<exists>r. pingMaintainer e it days True w = (Inr r, snd (getSponsor e (assignees it) w))
      \<and> success r = (\<exists>login. fst (getSponsor e (assignees it) w) = Inr (Some login) \<and> login \<noteq> [])"
proof -
  from getSponsor_returns [of e "assignees it" w] obtain found w1
    where 1: "getSponsor e (assignees it) w = (Inr found, w1)" by blast
  show ?thesis
  proof (cases "truthy found")
    case True
    then obtain login where "found = Some login" "login \<noteq> []" by (cases found) auto
    with 1 pingMaintainerDirectly_dry [of e it login days w1] show ?thesis
      by (auto simp: pingMaintainer_def io_bind_def)
  next
    case False
    then have "\<not> (\<exists>login. found = Some login \<and> login \<noteq> [])" by (cases found) auto
    with 1 False show ?thesis
      by (auto simp: pingMaintainer_def io_bind_def io_return_def)
  qed
qed

lemma getSponsor_mutations: "mutationsOf (snd (getSponsor e logins w)) = mutationsOf w"
proof (cases "getSponsor e logins w")
  case (Pair out w')
  then show ?thesis
    using emits_returned [OF emits_getSponsor, of e logins w _ w']
      emits_thrown [OF emits_getSponsor, of e logins w _ w']
    by (cases out) auto
qed

text \<open>
  Claim C6, as amended. In a dry run neither \<open>executeTransition\<close> nor \<open>executePing\<close>
  makes a label, comment or close request, whatever the item and the request. The
  validation comes before the dry-run check, so a dry run does not always report success:
  \<open>executeTransition\<close> reports success exactly when the transition is valid from the
  item's state; \<open>executePing\<close> reports success exactly when, for a dormant marking,
  \<open>Dormant\<close> is a valid target from the item's state and, for a ping aimed at the
  maintainer, an assignee who can sponsor is found; every other dry-run ping reports
  success.
\<close>

theorem dry_run_mutates_nothing:
  "mutationsOf (snd (executeTransition e it to sponsor True w)) = mutationsOf w
   \<and> succeeded (executeTransition e it to sponsor True w)
       = Some (isValidTransition (state it) to)
   \<and> mutationsOf (snd (executePing e a True w)) = mutationsOf w
   \<and> succeeded (executePing e a True w)
       = Some (if shouldMarkDormant a then isValidTransition (state (item a)) Dormant
               else if pingTarget a = Some Maintainer
               then \<exists>login. fst (getSponsor e (assignees (item a)) w) = Inr (Some login)
                      \<and> login \<noteq> []
               else True)"
proof -
  have transition: "mutationsOf (snd (executeTransition e it to sponsor True w)) = mutationsOf w
     \<and> succeeded (executeTransition e it to sponsor True w)
         = Some (isValidTransition (state it) to)"
    by (simp add: executeTransition_dry succeeded_def)
  have ping: "mutationsOf (snd (executePing e a True w)) = mutationsOf w
     \<and> succeeded (executePing e a True w)
       = Some (if shouldMarkDormant a then isValidTransition (state (item a)) Dormant
               else if pingTarget a = Some Maintainer
               then \<exists>login. fst (getSponsor e (assignees (item a)) w) = Inr (Some login)
                      \<and> login \<noteq> []
               else True)"
  proof (cases "shouldMarkDormant a")
    case True
    with markDormant_dry [of e "item a" "daysSinceActivity a" "shouldClose a" w]
    show ?thesis by (auto simp: executePing_def succeeded_def)
  next
    case False
    show ?thesis
    proof (cases "pingTarget a")
      case None
      with False show ?thesis by (simp add: executePing_def succeeded_def io_return_def)
    next
      case (Some target)
      show ?thesis
      proof (cases target)
        case Author
        with False Some pingAuthor_dry [of e "item a" "daysSinceActivity a" w]
        show ?thesis by (auto simp: executePing_def succeeded_def)
      next
        case Sponsor
        with False Some pingSponsor_dry [of e "item a" "daysSinceActivity a" w]
        show ?thesis by (auto simp: executePing_def succeeded_def getSponsor_mutations)
      next
        case Maintainer
        with False Some pingMaintainer_dry [of e "item a" "daysSinceActivity a" w]
        show ?thesis by (auto simp: executePing_def succeeded_def getSponsor_mutations)
      qed
    qed
  qed
  from transition ping show ?thesis by simp
qed

theorem dry_run_mutates_nothing_witness:
  "succeeded (executeTransition (testEnv quietRemote) (testItem (Some Proposal)) Draft
      ''sponsor1'' True (newWorld testConfig)) = Some True
   \<and> mutationsOf (snd (executeTransition (testEnv quietRemote) (testItem (Some Proposal)) Draft
      ''sponsor1'' True (newWorld testConfig))) = []
   \<and> succeeded (executePing (testEnv quietRemote) (pingAnalysis (Some Draft) Sponsor) True
      (newWorld testConfig)) = Some True
   \<and> mutationsOf (snd (executePing (testEnv quietRemote) (pingAnalysis (Some Draft) Sponsor)
      True (newWorld testConfig))) = []
   \<and> succeeded (executePing (testEnv quietRemote) (dormantAnalysis (Some Proposal)) True
      (newWorld testConfig)) = Some True"
  using dry_run_mutates_nothing [of "testEnv quietRemote" "testItem (Some Proposal)" Draft
      "''sponsor1''" "newWorld testConfig" "pingAnalysis (Some Draft) Sponsor"]
    dry_run_mutates_nothing [of "testEnv quietRemote" "testItem (Some Proposal)" Draft
      "''sponsor1''" "newWorld testConfig" "dormantAnalysis (Some Proposal)"]
  by (simp add: testItem_def pingAnalysis_def dormantAnalysis_def mutationsOf_def newWorld_def)

text \<open>
  Claim C6 as first stated (every dry run reports success) fails: a dry-run transition
  from \<open>Final\<close> to \<open>Draft\<close>, and a dry-run dormant marking of an item in state
  \<open>Final\<close>, report \<open>success = False\<close>.
\<close>

theorem dry_run_reports_failure:
  "succeeded (executeTransition (testEnv quietRemote) (testItem (Some Final)) Draft
      ''sponsor1'' True (newWorld testConfig)) = Some False
   \<and> succeeded (executePing (testEnv quietRemote) (dormantAnalysis (Some Final)) True
      (newWorld testConfig)) = Some False"
  using markDormant_dry [of "testEnv quietRemote" "testItem (Some Final)" 200 True
      "newWorld testConfig"]
  by (auto simp: executeTransition_dry succeeded_def executePing_def dormantAnalysis_def
        testItem_def)

subsection \<open>The requests of the resolver and of the transition handler\<close>






















subsection \<open>The processor: a sponsored proposal becomes a draft\<close>





subsection \<open>The processor: the summary of a staleness action\<close>

text \<open>
  Claim C7 says that the \<^verbatim>\<open>ProcessResult\<close> holds, when it is returned, a summary row
  for every successful action of the pass, the staleness actions included. The code does
  not do that. The run below is of an open proposal nobody is assigned to, last updated
  100 days before: the author is pinged, the comment is created, the result reports
  success, and \<open>process\<close> returns with that result and an empty summary, the update of
  the summary still outstanding.
\<close>

theorem process_returns_before_summary_update:
  "\<exists>r w'. process (testEnv (echoRemote 100)) unassignedItem (newWorld testConfig)
            = (Inr (\<lparr>results = [r], summaryData = emptySummary\<rparr>, Some r), w')
         \<and> actionType (action r) = PingAuthor \<and> success r
         \<and> mutationsOf w' = [CreateComment 123 (createAuthorPingComment unassignedItem 100)]"
  by (simp add: process_def checkAutoTransition_def checkStaleness_def analyze_def now_def
        getLastBotPingDate_def getComments_def analyzeByState_def analyzeProposal_def
        executePing_def pingAuthor_def addComment_def createAction_def
        ensureInitialized_def io_defs Let_def daysBetween_def MS_PER_DAY_def
        test_defs unassignedItem_def echoRemote_def laterRemote_def mutationsOf_def)

text \<open>
  The same holds for every item that is neither a draft nor in review: what \<open>process\<close>
  returns never has a ping, needs-sponsor or dormant row.
\<close>

lemma staleness_rows_not_returned:
  assumes "process e sep w = (Inr (pr, outstanding), w')"
    and "state sep \<noteq> Some Draft" and "state sep \<noteq> Some InReview"
  shows "pings (summaryData pr) = [] \<and> needsSponsor (summaryData pr) = []
       \<and> dormant (summaryData pr) = []"
  using assms
  by (auto simp: process_def io_bind_def io_return_def emptySummary_def Let_def
        split: if_splits prod.splits sum.splits option.splits)

text \<open>
  When the outstanding update runs at last, it analyses the item again, finds the comment
  the ping has just created, which carries the marker, takes it for a cooldown, and adds
  no row either.
\<close>

lemma marker_in_author_ping:
  "str_includes (createAuthorPingComment it days) BOT_COMMENT_MARKER"
proof -
  have "\<exists>rest. createAuthorPingComment it days = [] @ BOT_COMMENT_MARKER @ rest"
    by (simp add: createAuthorPingComment_def)
  then show ?thesis
    using str_includes_append [of "[]" BOT_COMMENT_MARKER] by auto
qed

lemma late_summary_update_finds_cooldown:
  "case process (testEnv (echoRemote 100)) unassignedItem (newWorld testConfig) of
     (Inr (pr, Some r), w') \<Rightarrow>
        fst (updateSummaryFromStaleness (testEnv (echoRemote 100)) r unassignedItem
               (summaryData pr) w') = Inr emptySummary
   | _ \<Rightarrow> False"
  by (simp add: process_def checkAutoTransition_def checkStaleness_def analyze_def now_def
        getLastBotPingDate_def getComments_def analyzeByState_def analyzeProposal_def
        executePing_def pingAuthor_def addComment_def createAction_def
        updateSummaryFromStaleness_def marker_in_author_ping
        ensureInitialized_def io_defs Let_def daysBetween_def MS_PER_DAY_def
        test_defs unassignedItem_def echoRemote_def laterRemote_def)

text \<open>
  For a draft \<open>process\<close> waits for the accountability pass, and what the summary holds
  on return depends on the order of the answers. The test item as a draft, last updated
  200 days before, with its assignee a core maintainer: the sponsor is pinged, then the
  maintainer. When the answers come in the order of the requests, the row of the sponsor
  ping is in the summary, ahead of the row of the maintainer.
\<close>

lemma draft_row_lands_in_request_order:
  "\<exists>r1 r2 w'. process (testEnv sponsorRemote) (testItem (Some Draft)) (newWorld testConfig)
       = (Inr (\<lparr>results = [r1, r2],
                 summaryData = emptySummary
                   \<lparr>pings := [\<lparr>pr_item = testItem (Some Draft), pr_pingTarget = Sponsor,
                               pr_targetUser = ''maintainer1'', pr_daysSinceActivity = 200\<rparr>,
                              \<lparr>pr_item = testItem (Some Draft), pr_pingTarget = Maintainer,
                               pr_targetUser = ''maintainer1'', pr_daysSinceActivity = 200\<rparr>]\<rparr>\<rparr>,
               None), w')
     \<and> actionType (action r1) = PingSponsor \<and> success r1
     \<and> actionType (action r2) = PingMaintainer \<and> success r2"
  by (simp add: process_def checkAutoTransition_def checkStaleness_def analyze_def now_def
        getLastBotPingDate_def getComments_def getEvents_def analyzeByState_def analyzeDraft_def
        executePing_def pingSponsor_def
        updateSummaryFromStaleness_def getTargetUser_def
        launchUpdate_def settle_def checkMaintainerAccountability_def isCoreMaintainer_def
        canSponsor_def ensureSponsorsLoaded_def SPONSOR_TEAMS_def getTeamMembers_def set_add_def
        checkMaintainerActivity_def pingMaintainerDirectly_def addComment_def createAction_def
        ensureInitialized_def io_defs Let_def daysBetween_def MS_PER_DAY_def
        test_defs sponsorRemote_def emptySummary_def)

text \<open>
  When the listing the update has asked for is answered only after \<open>process\<close> has
  returned, the summary holds the row of the maintainer alone.
\<close>

lemma draft_row_outstanding_when_answered_late:
  "\<exists>r1 r2 w'. process (testEnv (sponsorRemote\<lparr>landing := (\<lambda>h. None)\<rparr>)) (testItem (Some Draft))
         (newWorld testConfig)
       = (Inr (\<lparr>results = [r1, r2],
                 summaryData = emptySummary
                   \<lparr>pings := [\<lparr>pr_item = testItem (Some Draft), pr_pingTarget = Maintainer,
                               pr_targetUser = ''maintainer1'', pr_daysSinceActivity = 200\<rparr>]\<rparr>\<rparr>,
               Some r1), w')
     \<and> actionType (action r1) = PingSponsor \<and> success r1
     \<and> actionType (action r2) = PingMaintainer \<and> success r2"
  by (simp add: process_def checkAutoTransition_def checkStaleness_def analyze_def now_def
        getLastBotPingDate_def getComments_def getEvents_def analyzeByState_def analyzeDraft_def
        executePing_def pingSponsor_def
        updateSummaryFromStaleness_def getTargetUser_def
        launchUpdate_def settle_def checkMaintainerAccountability_def isCoreMaintainer_def
        canSponsor_def ensureSponsorsLoaded_def SPONSOR_TEAMS_def getTeamMembers_def set_add_def
        checkMaintainerActivity_def pingMaintainerDirectly_def addComment_def createAction_def
        ensureInitialized_def io_defs Let_def daysBetween_def MS_PER_DAY_def
        test_defs sponsorRemote_def emptySummary_def)

end
